theory Spec2Isabelle
  imports Complex_Main "HOL-Library.Log_Nat"
begin

section \<open>JavaScript values\<close>

text \<open>
  The server is a Node.js program (\<^verbatim>\<open>src/server.js\<close>), so its data are JavaScript
  values. A Number is an IEEE 754 binary64 value: \<open>NaN\<close>, an infinity, or a finite
  value, kept here as the rational it denotes (\<open>-0\<close> and \<open>+0\<close> are both \<open>Num 0\<close>; the
  program never tells them apart). Strings are byte strings holding the UTF-8 encoding
  of the text. An ObjectId is kept as its 24-digit hexadecimal form.
\<close>

datatype jsnum = NaN | PInf | NInf | Num rat

datatype objid = ObjectId string

datatype jsval =
    JUndefined
  | JNull
  | JBool bool
  | JNum jsnum
  | JStr string
  | JArr "jsval list"
  | JObj "(string \<times> jsval) list"
  | JDate int
  | JOid objid

text \<open>ToBoolean: the falsy values are undefined, null, false, 0, NaN and the empty string.\<close>

fun truthy :: "jsval \<Rightarrow> bool" where
  "truthy JUndefined = False"
| "truthy JNull = False"
| "truthy (JBool b) = b"
| "truthy (JNum n) = (n \<noteq> NaN \<and> n \<noteq> Num 0)"
| "truthy (JStr s) = (s \<noteq> [])"
| "truthy (JArr xs) = True"
| "truthy (JObj kvs) = True"
| "truthy (JDate t) = True"
| "truthy (JOid i) = True"

text \<open>The operator \<^verbatim>\<open>a || b\<close>.\<close>

definition js_or :: "jsval \<Rightarrow> jsval \<Rightarrow> jsval" where
  "js_or a b = (if truthy a then a else b)"

text \<open>Property read \<^verbatim>\<open>o.k\<close> on a value that is not undefined or null: an absent
  property, and any property of a primitive that the program reads, is undefined.\<close>

fun get_prop :: "jsval \<Rightarrow> string \<Rightarrow> jsval" where
  "get_prop (JObj kvs) k = (case map_of kvs k of None \<Rightarrow> JUndefined | Some v \<Rightarrow> v)"
| "get_prop v k = JUndefined"

section \<open>Binary64 arithmetic\<close>

text \<open>Rounding to the nearest integer, ties to even.\<close>

definition rhe :: "rat \<Rightarrow> int" where
  "rhe y = (let f = \<lfloor>y\<rfloor>; d = y - of_int f in
     if d < 1 / 2 then f else if 1 / 2 < d then f + 1 else if even f then f else f + 1)"

text \<open>The binary exponent of a positive rational: \<open>2 ^ binade x \<le> x < 2 ^ (binade x + 1)\<close>.\<close>

definition binade :: "rat \<Rightarrow> int" where
  "binade x = (if 1 \<le> x then bitlen \<lfloor>x\<rfloor> - 1 else - bitlen (\<lceil>1 / x\<rceil> - 1))"

text \<open>The exponent of the unit in the last place: 53 significant bits, and the
  subnormal spacing \<open>2 ^ -1074\<close> at the bottom.\<close>

definition ulp_exp :: "rat \<Rightarrow> int" where
  "ulp_exp x = max (binade \<bar>x\<bar> - 52) (- 1074)"

text \<open>Round to nearest, ties to even, as every JavaScript arithmetic operation does.
  The result is the binary64 value when it is below \<open>2 ^ 1024\<close> in magnitude; a result
  that reaches \<open>2 ^ 1024\<close> stands for an overflow to infinity.\<close>

definition round64 :: "rat \<Rightarrow> rat" where
  "round64 x = (if x = 0 then 0 else of_int (rhe (x / 2 powi ulp_exp x)) * 2 powi ulp_exp x)"

definition is_double :: "rat \<Rightarrow> bool" where
  "is_double x = (round64 x = x \<and> \<bar>x\<bar> < 2 ^ 1024)"

definition js_add :: "rat \<Rightarrow> rat \<Rightarrow> rat" where
  "js_add x y = round64 (x + y)"

definition js_mul :: "rat \<Rightarrow> rat \<Rightarrow> rat" where
  "js_mul x y = round64 (x * y)"

definition Math_floor :: "rat \<Rightarrow> int" where
  "Math_floor x = \<lfloor>x\<rfloor>"

section \<open>Decimal strings\<close>

definition digit_char :: "nat \<Rightarrow> char" where
  "digit_char d = char_of (48 + d)"

definition is_digit :: "char \<Rightarrow> bool" where
  "is_digit c = (48 \<le> (of_char c :: nat) \<and> (of_char c :: nat) \<le> 57)"

definition digit_val :: "char \<Rightarrow> nat" where
  "digit_val c = of_char c - 48"

fun digits :: "nat \<Rightarrow> string" where
  "digits n = (if n < 10 then [digit_char n] else digits (n div 10) @ [digit_char (n mod 10)])"

declare digits.simps [simp del]

definition decimal_value :: "string \<Rightarrow> nat" where
  "decimal_value s = foldl (\<lambda>a c. 10 * a + digit_val c) 0 s"

text \<open>Number::toString on an integral Number below \<open>10 ^ 21\<close> in magnitude, which is
  where JavaScript prints plain decimal digits.\<close>

definition Number_toString :: "int \<Rightarrow> string" where
  "Number_toString n = (if n < 0 then CHR ''-'' # digits (nat (- n)) else digits (nat n))"

section \<open>Identifier generator\<close>

text \<open>
  \<^verbatim>\<open>function generateUniquePassId() {
    const randomNum = Math.floor(10000000 + Math.random() * 90000000);
    return `TSRTC-${randomNum}`; }\<close>
  The value returned by \<^verbatim>\<open>Math.random()\<close> is the argument \<open>r\<close>. The function is
  written twice in the source file, once in each version of the server.
\<close>

definition esm_generateUniquePassId :: "rat \<Rightarrow> string" where
  "esm_generateUniquePassId r =
     (let randomNum = Math_floor (js_add 10000000 (js_mul r 90000000))
      in ''TSRTC-'' @ Number_toString randomNum)"

definition cjs_generateUniquePassId :: "rat \<Rightarrow> string" where
  "cjs_generateUniquePassId r =
     (let randomNum = Math_floor (js_add 10000000 (js_mul r 90000000))
      in ''TSRTC-'' @ Number_toString randomNum)"

section \<open>Number coercion\<close>

text \<open>
  \<^verbatim>\<open>Number(v)\<close> is the ECMAScript operation ToNumber. On a string it is StringToNumber:
  the text, with white space trimmed on both sides, must be a StrNumericLiteral, else the
  result is NaN; the empty text is 0. White space is TAB, LF, VT, FF, CR, SP and, in
  UTF-8, U+00A0, U+1680, U+2000 to U+200A, U+2028, U+2029, U+202F, U+205F, U+3000, U+FEFF.
\<close>

definition ws1 :: "char \<Rightarrow> bool" where
  "ws1 a = ((of_char a :: nat) \<in> {9, 10, 11, 12, 13, 32})"

definition ws2 :: "char \<Rightarrow> char \<Rightarrow> bool" where
  "ws2 a b = ((of_char a :: nat) = 0xC2 \<and> (of_char b :: nat) = 0xA0)"

definition ws3 :: "char \<Rightarrow> char \<Rightarrow> char \<Rightarrow> bool" where
  "ws3 a b c = (let x = (of_char a :: nat); y = (of_char b :: nat); z = (of_char c :: nat) in
     (x = 0xE1 \<and> y = 0x9A \<and> z = 0x80) \<or>
     (x = 0xE2 \<and> y = 0x80 \<and> ((0x80 \<le> z \<and> z \<le> 0x8A) \<or> z = 0xA8 \<or> z = 0xA9 \<or> z = 0xAF)) \<or>
     (x = 0xE2 \<and> y = 0x81 \<and> z = 0x9F) \<or>
     (x = 0xE3 \<and> y = 0x80 \<and> z = 0x80) \<or>
     (x = 0xEF \<and> y = 0xBB \<and> z = 0xBF))"

fun skip_ws :: "string \<Rightarrow> string" where
  "skip_ws (a # b # c # s) =
     (if ws1 a then skip_ws (b # c # s)
      else if ws2 a b then skip_ws (c # s)
      else if ws3 a b c then skip_ws s
      else a # b # c # s)"
| "skip_ws [a, b] = (if ws1 a then skip_ws [b] else if ws2 a b then [] else [a, b])"
| "skip_ws [a] = (if ws1 a then [] else [a])"
| "skip_ws [] = []"

definition all_ws :: "string \<Rightarrow> bool" where
  "all_ws s = (skip_ws s = [])"

text \<open>RoundMVResult: the mathematical value of the literal, rounded to binary64.\<close>

definition round_result :: "rat \<Rightarrow> jsnum" where
  "round_result v = (let x = round64 v in
     if 2 ^ 1024 \<le> x then PInf else if x \<le> - (2 ^ 1024) then NInf else Num x)"

definition hex_val :: "char \<Rightarrow> nat option" where
  "hex_val c = (let n = (of_char c :: nat) in
     if 48 \<le> n \<and> n \<le> 57 then Some (n - 48)
     else if 97 \<le> n \<and> n \<le> 102 then Some (n - 87)
     else if 65 \<le> n \<and> n \<le> 70 then Some (n - 55)
     else None)"

definition radix_digit :: "nat \<Rightarrow> char \<Rightarrow> bool" where
  "radix_digit b c = (case hex_val c of None \<Rightarrow> False | Some d \<Rightarrow> d < b)"

definition radix_value :: "nat \<Rightarrow> string \<Rightarrow> nat" where
  "radix_value b s = foldl (\<lambda>a c. b * a + (case hex_val c of None \<Rightarrow> 0 | Some d \<Rightarrow> d)) 0 s"

text \<open>NonDecimalIntegerLiteral: \<^verbatim>\<open>0x\<close>, \<^verbatim>\<open>0o\<close> or \<^verbatim>\<open>0b\<close> (either case) and at least one
  digit of that radix; no sign.\<close>

definition radix_of :: "char \<Rightarrow> nat option" where
  "radix_of c =
     (if c = CHR ''x'' \<or> c = CHR ''X'' then Some 16
      else if c = CHR ''o'' \<or> c = CHR ''O'' then Some 8
      else if c = CHR ''b'' \<or> c = CHR ''B'' then Some 2
      else None)"

fun non_decimal :: "string \<Rightarrow> jsnum option" where
  "non_decimal (z # c # s) =
     (if z = CHR ''0'' then
        (case radix_of c of
           None \<Rightarrow> None
         | Some b \<Rightarrow>
             (let ds = takeWhile (radix_digit b) s; rest = dropWhile (radix_digit b) s in
              if ds \<noteq> [] \<and> all_ws rest then Some (round_result (of_nat (radix_value b ds)))
              else None))
      else None)"
| "non_decimal s = None"

text \<open>The sign of an ExponentPart's SignedInteger.\<close>

fun signed_integer :: "string \<Rightarrow> bool \<times> string" where
  "signed_integer (c # s) =
     (if c = CHR ''+'' then (False, s) else if c = CHR ''-'' then (True, s) else (False, c # s))"
| "signed_integer [] = (False, [])"

fun exponent_part :: "string \<Rightarrow> (int \<times> string) option" where
  "exponent_part (c # s) =
     (if c = CHR ''e'' \<or> c = CHR ''E'' then
        (let (neg, t) = signed_integer s; es = takeWhile is_digit t in
         if es = [] then None
         else Some ((if neg then - int (decimal_value es) else int (decimal_value es)),
                    dropWhile is_digit t))
      else Some (0, c # s))"
| "exponent_part [] = Some (0, [])"

text \<open>StrUnsignedDecimalLiteral followed by white space only: \<^verbatim>\<open>Infinity\<close>, or digits
  with an optional fraction and exponent, at least one digit before or after the point.\<close>

definition unsigned_decimal :: "bool \<Rightarrow> string \<Rightarrow> jsnum" where
  "unsigned_decimal neg u =
     (if take 8 u = ''Infinity'' then
        (if all_ws (drop 8 u) then (if neg then NInf else PInf) else NaN)
      else
        (let ds1 = takeWhile is_digit u; r1 = dropWhile is_digit u;
             (ds2, r2) = (case r1 of
                 [] \<Rightarrow> ([], r1)
               | c # v \<Rightarrow> if c = CHR ''.'' then (takeWhile is_digit v, dropWhile is_digit v)
                          else ([], r1))
         in if ds1 = [] \<and> ds2 = [] then NaN
            else (case exponent_part r2 of
                    None \<Rightarrow> NaN
                  | Some (e, rest) \<Rightarrow>
                      if all_ws rest then
                        (let mv = of_nat (decimal_value (ds1 @ ds2)) * 10 powi (e - int (length ds2))
                         in round_result (if neg then - mv else mv))
                      else NaN)))"

definition StringToNumber :: "string \<Rightarrow> jsnum" where
  "StringToNumber s =
     (let t = skip_ws s in
      if t = [] then Num 0
      else (case non_decimal t of
              Some n \<Rightarrow> n
            | None \<Rightarrow>
                (if hd t = CHR ''+'' then unsigned_decimal False (tl t)
                 else if hd t = CHR ''-'' then unsigned_decimal True (tl t)
                 else unsigned_decimal False t)))"

text \<open>Errors are JavaScript Error objects; the handlers read only their message.\<close>

datatype js_error = Error (message: string)

text \<open>
  An object or array is first made primitive (ToPrimitive, through \<^verbatim>\<open>toString\<close>). A
  plain object gives \<^verbatim>\<open>[object Object]\<close>; when it has an own property \<^verbatim>\<open>toString\<close>
  (from a parsed JSON body never a function) there is no callable conversion left and a
  TypeError is thrown. An array joins the strings of its elements with commas, an element
  that is undefined or null giving the empty string.
\<close>

fun toString_throws :: "jsval \<Rightarrow> bool" where
  "toString_throws (JObj kvs) = (''toString'' \<in> fst ` set kvs)"
| "toString_throws (JArr xs) = (\<exists>x \<in> set xs. toString_throws x)"
| "toString_throws v = False"

text \<open>
  ToNumber of a value whose conversion does not throw. For an array, the joined string
  holds a comma as soon as there are two elements, which is NaN; with one element it is
  the string of that element, and a Number printed and read again is itself.
\<close>

fun ToNumber :: "jsval \<Rightarrow> jsnum" where
  "ToNumber JUndefined = NaN"
| "ToNumber JNull = Num 0"
| "ToNumber (JBool b) = (if b then Num 1 else Num 0)"
| "ToNumber (JNum n) = n"
| "ToNumber (JStr s) = StringToNumber s"
| "ToNumber (JObj kvs) = NaN"
| "ToNumber (JDate t) = Num (of_int t)"
| "ToNumber (JOid (ObjectId h)) = StringToNumber h"
| "ToNumber (JArr []) = Num 0"
| "ToNumber (JArr [JUndefined]) = Num 0"
| "ToNumber (JArr [JNull]) = Num 0"
| "ToNumber (JArr [JBool b]) = NaN"
| "ToNumber (JArr [JNum n]) = n"
| "ToNumber (JArr [JStr s]) = StringToNumber s"
| "ToNumber (JArr [JObj kvs]) = NaN"
| "ToNumber (JArr [JDate t]) = NaN"
| "ToNumber (JArr [JOid (ObjectId h)]) = StringToNumber h"
| "ToNumber (JArr [JArr xs]) = ToNumber (JArr xs)"
| "ToNumber (JArr (x # y # zs)) = NaN"

definition Number_call :: "jsval \<Rightarrow> js_error + jsnum" where
  "Number_call v =
     (if toString_throws v then Inl (Error ''Cannot convert object to primitive value'')
      else Inr (ToNumber v))"

section \<open>Record store\<close>

text \<open>
  The Record Store (the MongoDB driver and server behind \<^verbatim>\<open>applications\<close> and
  \<^verbatim>\<open>tickets\<close>) is an external collaborator; its code is not in the repository. A
  collection is the list of its documents in insertion order.
\<close>

text \<open>Modelled from the spec: the store's filters, which are not in the repository. A
  filter \<^verbatim>\<open>{k: v}\<close> holds of a document whose field \<open>k\<close> equals \<open>v\<close> (the spec's
  \<^verbatim>\<open>phone == phone OR whatsapp == phone OR number == phone\<close>, "exact match"), and
  \<^verbatim>\<open>$or\<close> of a document that satisfies one of the alternatives.\<close>

datatype query = Eq string jsval | Or "query list"

fun matches :: "query \<Rightarrow> jsval \<Rightarrow> bool" where
  "matches (Eq k v) d = (get_prop d k = v)"
| "matches (Or qs) d = (\<exists>q \<in> set qs. matches q d)"

text \<open>Modelled from the spec: the store's \<^verbatim>\<open>findOne\<close>, which is not in the repository.
  It "returns the first match only", and null when no document matches.\<close>

definition findOne :: "query \<Rightarrow> jsval list \<Rightarrow> jsval" where
  "findOne q c = (case find (matches q) c of None \<Rightarrow> JNull | Some d \<Rightarrow> d)"

text \<open>Modelled from the spec: the internal record id, "assigned by the store on insert",
  which is not in the repository. The driver writes the id into the field \<^verbatim>\<open>_id\<close> of the
  document it is given, unless the document carries one.\<close>

fun assign_id :: "objid \<Rightarrow> jsval \<Rightarrow> jsval" where
  "assign_id i (JObj kvs) =
     (if get_prop (JObj kvs) ''_id'' = JUndefined \<or> get_prop (JObj kvs) ''_id'' = JNull
      then JObj (kvs @ [(''_id'', JOid i)]) else JObj kvs)"
| "assign_id i d = d"

text \<open>Modelled from the spec: the store's \<^verbatim>\<open>insertOne\<close>, which is not in the repository.
  It persists one record. Its result carries the id of the inserted document and, with
  the 3.x driver only, the list \<^verbatim>\<open>ops\<close> of inserted documents. The document handed in
  is the object that receives the \<^verbatim>\<open>_id\<close>, so the caller sees it too.\<close>

record insert_result =
  insertedId :: jsval
  ops :: "jsval list option"

definition insertOne :: "bool \<Rightarrow> objid \<Rightarrow> jsval \<Rightarrow> jsval list \<Rightarrow> insert_result \<times> jsval \<times> jsval list" where
  "insertOne with_ops i doc c =
     (let doc' = assign_id i doc in
      (\<lparr>insertedId = get_prop doc' ''_id'', ops = (if with_ops then Some [doc'] else None)\<rparr>,
       doc', c @ [doc']))"

section \<open>Server state, environment and responses\<close>

text \<open>
  \<^verbatim>\<open>let applications, tickets;\<close> are the two collection handles, undefined (\<open>None\<close>) until
  \<^verbatim>\<open>connectDB\<close> has assigned them.
\<close>

record state =
  applications :: "jsval list option"
  tickets :: "jsval list option"

text \<open>
  What a request handler takes from outside the program: the value of \<^verbatim>\<open>Math.random()\<close>,
  the QR encoder \<^verbatim>\<open>QRCode.toDataURL\<close> (another package), the clock \<^verbatim>\<open>new Date()\<close>, the
  id the driver generates for an inserted document, whether the store operation of this
  request rejects (and with which error), the constructor \<^verbatim>\<open>new ObjectId(v)\<close> of the
  driver, which throws on a value that is not in the id format, and whether the driver's
  insert result has \<^verbatim>\<open>ops\<close>.
\<close>

record env =
  Math_random :: rat
  QRCode_toDataURL :: "string \<Rightarrow> js_error + string"
  new_Date :: int
  driver_id :: objid
  store_fault :: "js_error option"
  new_ObjectId :: "jsval \<Rightarrow> js_error + objid"
  result_has_ops :: bool

text \<open>A request, as the body parsers and the upload middleware hand it to a handler:
  \<^verbatim>\<open>req.body\<close> is an object, and \<^verbatim>\<open>req.body.k\<close> is \<open>req_body r k\<close> (undefined when the
  field is absent); \<open>req_files r k\<close> is the stored file name
  \<^verbatim>\<open>req.files.k[0].filename\<close> when a file was uploaded under \<open>k\<close>. A route parameter
  \<^verbatim>\<open>req.params.k\<close> is a string and is passed to the handler as such.\<close>

record request =
  req_body :: "string \<Rightarrow> jsval"
  req_files :: "string \<Rightarrow> string option"

text \<open>A response is the HTTP status and the value handed to \<^verbatim>\<open>res.json\<close>. The outcome
  of a handler is the response, the state left behind and the lines written with
  \<^verbatim>\<open>console.error\<close> (each the list of its arguments).\<close>

record response =
  status :: nat
  body :: jsval

record outcome =
  reply :: response
  store :: state
  console :: "string list list"

definition json :: "jsval \<Rightarrow> response" where
  "json v = \<lparr>status = 200, body = v\<rparr>"

definition status_json :: "nat \<Rightarrow> jsval \<Rightarrow> response" where
  "status_json n v = \<lparr>status = n, body = v\<rparr>"

text \<open>The check mark U+2705 and the cross mark U+274C of the server's messages, in UTF-8.\<close>

definition check_mark :: string where
  "check_mark = [char_of (0xE2 :: nat), char_of (0x9C :: nat), char_of (0x85 :: nat)]"

definition cross_mark :: string where
  "cross_mark = [char_of (0xE2 :: nat), char_of (0x9D :: nat), char_of (0x8C :: nat)]"

text \<open>The TypeError of reading a property of an undefined collection handle.\<close>

definition undefined_read :: "string \<Rightarrow> js_error" where
  "undefined_read p = Error (''Cannot read properties of undefined (reading '' @ [CHR 0x27] @ p @ [CHR 0x27] @ '')'')"

section \<open>Request handlers, ESM version (the first program of the source file)\<close>

text \<open>
  Each handler is the body of the route's \<^verbatim>\<open>async (req, res) => { try ... catch ... }\<close>:
  every throw or rejection inside \<^verbatim>\<open>try\<close> ends in the \<^verbatim>\<open>catch\<close> branch of that
  handler. A store operation that rejects leaves the collection as it was.
\<close>

subsection \<open>\<^verbatim>\<open>POST /apply\<close>\<close>

definition esm_apply_catch :: "state \<Rightarrow> js_error \<Rightarrow> outcome" where
  "esm_apply_catch st err =
     \<lparr>reply = status_json 500
        (JObj [(''success'', JBool False), (''error'', JStr ''Failed to save application'')]),
      store = st,
      console = [[cross_mark @ '' Error inserting application:'', message err]]\<rparr>"

text \<open>The object literal \<^verbatim>\<open>doc\<close> of the handler, with \<^verbatim>\<open>phoneNumber\<close>.\<close>

definition esm_application_doc :: "env \<Rightarrow> request \<Rightarrow> string \<Rightarrow> string \<Rightarrow> jsval" where
  "esm_application_doc e req passId qrDataUrl =
     (let phoneNumber =
            js_or (js_or (req_body req ''phone'') (req_body req ''whatsapp''))
              (req_body req ''number'')
      in JObj
              [(''passId'', JStr passId),
               (''qrCode'', JStr qrDataUrl),
               (''name'', req_body req ''name''),
               (''fatherName'', req_body req ''fatherName''),
               (''dob'', req_body req ''dob''),
               (''gender'', req_body req ''gender''),
               (''age'', JObj
                  [(''years'', req_body req ''ageYears''),
                   (''months'', req_body req ''ageMonths''),
                   (''days'', req_body req ''ageDays'')]),
               (''aadhar'', req_body req ''aadhar''),
               (''phone'', phoneNumber),
               (''whatsapp'', js_or (req_body req ''whatsapp'') phoneNumber),
               (''number'', js_or (req_body req ''number'') phoneNumber),
               (''email'', req_body req ''email''),
               (''photo'', (case req_files req ''photo'' of
                    Some filename \<Rightarrow> JStr (''/uploads/'' @ filename)
                  | None \<Rightarrow> JStr [])),
               (''aadharFile'', (case req_files req ''aadharFile'' of
                    Some filename \<Rightarrow> JStr (''/uploads/'' @ filename)
                  | None \<Rightarrow> JStr [])),
               (''address'', req_body req ''address''),
               (''district'', req_body req ''district''),
               (''mandal'', req_body req ''mandal''),
               (''village'', req_body req ''village''),
               (''pincode'', req_body req ''pincode''),
               (''city'', req_body req ''city''),
               (''passType'', req_body req ''passType''),
               (''paymentMode'', JStr ''FREE SCHEME''),
               (''deliveryMode'', JStr ''Bus Pass Counter''),
               (''counter'', req_body req ''counter''),
               (''createdAt'', JDate (new_Date e))])"

definition esm_apply :: "env \<Rightarrow> state \<Rightarrow> request \<Rightarrow> outcome" where
  "esm_apply e st req =
     (case applications st of
        None \<Rightarrow>
          \<lparr>reply = status_json 500 (JObj [(''error'', JStr ''DB not connected yet'')]),
           store = st, console = []\<rparr>
      | Some apps \<Rightarrow>
          (let passId = esm_generateUniquePassId (Math_random e) in
           case QRCode_toDataURL e passId of
             Inl err \<Rightarrow> esm_apply_catch st err
           | Inr qrDataUrl \<Rightarrow>
               (let doc = esm_application_doc e req passId qrDataUrl
                in case store_fault e of
                     Some err \<Rightarrow> esm_apply_catch st err
                   | None \<Rightarrow>
                       (let (result, doc', apps') =
                              insertOne (result_has_ops e) (driver_id e) doc apps
                        in \<lparr>reply = json (JObj
                               [(''success'', JBool True),
                                (''message'', JStr (check_mark @ '' Application stored in MongoDB'')),
                                (''id'', insertedId result),
                                (''passId'', JStr passId),
                                (''qrCode'', JStr qrDataUrl)]),
                             store = st\<lparr>applications := Some apps'\<rparr>,
                             console = []\<rparr>))))"

subsection \<open>\<^verbatim>\<open>GET /verify/:phone\<close>\<close>

definition esm_verify :: "env \<Rightarrow> state \<Rightarrow> string \<Rightarrow> outcome" where
  "esm_verify e st phone =
     (case applications st of
        None \<Rightarrow>
          \<lparr>reply = status_json 500
             (JObj [(''success'', JBool False), (''error'', JStr ''DB not connected'')]),
           store = st, console = []\<rparr>
      | Some apps \<Rightarrow>
          (case store_fault e of
             Some err \<Rightarrow>
               \<lparr>reply = status_json 500
                  (JObj [(''success'', JBool False), (''error'', JStr ''Server error'')]),
                store = st,
                console = [[cross_mark @ '' Verify error:'', message err]]\<rparr>
           | None \<Rightarrow>
               (let applicant = findOne
                      (Or [Eq ''phone'' (JStr phone), Eq ''whatsapp'' (JStr phone),
                           Eq ''number'' (JStr phone)]) apps
                in \<lparr>reply = json
                       (if truthy applicant
                        then JObj [(''success'', JBool True), (''id'', get_prop applicant ''_id'')]
                        else JObj [(''success'', JBool False)]),
                     store = st, console = []\<rparr>)))"

subsection \<open>\<^verbatim>\<open>GET /applicant/:id\<close>\<close>

definition esm_applicant_catch :: "state \<Rightarrow> js_error \<Rightarrow> outcome" where
  "esm_applicant_catch st err =
     \<lparr>reply = status_json 500
        (JObj [(''success'', JBool False), (''error'', JStr ''Server error'')]),
      store = st,
      console = [[cross_mark @ '' Fetch error:'', message err]]\<rparr>"

definition esm_applicant :: "env \<Rightarrow> state \<Rightarrow> string \<Rightarrow> outcome" where
  "esm_applicant e st ident =
     (case applications st of
        None \<Rightarrow>
          \<lparr>reply = status_json 500
             (JObj [(''success'', JBool False), (''error'', JStr ''DB not connected'')]),
           store = st, console = []\<rparr>
      | Some apps \<Rightarrow>
          (case new_ObjectId e (JStr ident) of
             Inl err \<Rightarrow> esm_applicant_catch st err
           | Inr oid \<Rightarrow>
               (case store_fault e of
                  Some err \<Rightarrow> esm_applicant_catch st err
                | None \<Rightarrow>
                    (let applicant = findOne (Eq ''_id'' (JOid oid)) apps
                     in \<lparr>reply = json
                            (if truthy applicant
                             then JObj [(''success'', JBool True), (''applicant'', applicant)]
                             else JObj [(''success'', JBool False)]),
                          store = st, console = []\<rparr>))))"

subsection \<open>\<^verbatim>\<open>GET /getApplicant/:passId\<close>\<close>

text \<open>This handler does not test the collection handle: reading \<^verbatim>\<open>findOne\<close> of an
  undefined \<^verbatim>\<open>applications\<close> throws inside \<^verbatim>\<open>try\<close>.\<close>

definition esm_getApplicant_catch :: "state \<Rightarrow> js_error \<Rightarrow> outcome" where
  "esm_getApplicant_catch st err =
     \<lparr>reply = status_json 500
        (JObj [(''success'', JBool False), (''error'', JStr (message err))]),
      store = st,
      console = [[cross_mark @ '' Fetch by PassID error:'', message err]]\<rparr>"

definition esm_getApplicant :: "env \<Rightarrow> state \<Rightarrow> string \<Rightarrow> outcome" where
  "esm_getApplicant e st passId =
     (case applications st of
        None \<Rightarrow> esm_getApplicant_catch st (undefined_read ''findOne'')
      | Some apps \<Rightarrow>
          (case store_fault e of
             Some err \<Rightarrow> esm_getApplicant_catch st err
           | None \<Rightarrow>
               (let applicant = findOne (Eq ''passId'' (JStr passId)) apps
                in \<lparr>reply = status_json (if truthy applicant then 200 else 404)
                       (js_or applicant
                          (JObj [(''success'', JBool False), (''msg'', JStr ''Not found'')])),
                     store = st, console = []\<rparr>)))"

subsection \<open>\<^verbatim>\<open>POST /bookTicket\<close>\<close>

text \<open>\<^verbatim>\<open>result.ops?.[0]\<close>: the first inserted document when the result has \<^verbatim>\<open>ops\<close>.\<close>

definition first_op :: "insert_result \<Rightarrow> jsval" where
  "first_op result = (case ops result of None \<Rightarrow> JUndefined | Some [] \<Rightarrow> JUndefined | Some (d # ds) \<Rightarrow> d)"

definition esm_bookTicket_catch :: "state \<Rightarrow> js_error \<Rightarrow> outcome" where
  "esm_bookTicket_catch st err =
     \<lparr>reply = status_json 500
        (JObj [(''success'', JBool False), (''error'', JStr (message err))]),
      store = st,
      console = [[cross_mark @ '' Ticket booking error:'', message err]]\<rparr>"

definition esm_bookTicket :: "env \<Rightarrow> state \<Rightarrow> request \<Rightarrow> outcome" where
  "esm_bookTicket e st req =
     (let applicantId = req_body req ''applicantId'';
          source = req_body req ''source'';
          destination = req_body req ''destination'';
          paymentType = req_body req ''paymentType'';
          amount = req_body req ''amount''
      in if \<not> truthy applicantId \<or> \<not> truthy source \<or> \<not> truthy destination \<or> \<not> truthy paymentType
         then \<lparr>reply = json (JObj [(''success'', JBool False), (''msg'', JStr ''Missing fields'')]),
               store = st, console = []\<rparr>
         else
           (case new_ObjectId e applicantId of
              Inl err \<Rightarrow> esm_bookTicket_catch st err
            | Inr oid \<Rightarrow>
                (case (if paymentType = JStr ''PAID'' then Number_call amount else Inr (Num 0)) of
                   Inl err \<Rightarrow> esm_bookTicket_catch st err
                 | Inr amt \<Rightarrow>
                     (let ticketDoc = JObj
                            [(''applicantId'', JOid oid),
                             (''source'', source),
                             (''destination'', destination),
                             (''paymentType'', paymentType),
                             (''amount'', JNum amt),
                             (''bookedAt'', JDate (new_Date e))]
                      in case tickets st of
                           None \<Rightarrow> esm_bookTicket_catch st (undefined_read ''insertOne'')
                         | Some tks \<Rightarrow>
                             (case store_fault e of
                                Some err \<Rightarrow> esm_bookTicket_catch st err
                              | None \<Rightarrow>
                                  (let (result, ticketDoc', tks') =
                                         insertOne (result_has_ops e) (driver_id e) ticketDoc tks
                                   in \<lparr>reply = json (JObj
                                          [(''success'', JBool True),
                                           (''ticket'', js_or (first_op result) ticketDoc')]),
                                        store = st\<lparr>tickets := Some tks'\<rparr>,
                                        console = []\<rparr>))))))"

section \<open>Request handlers, CommonJS version (the second program of the source file)\<close>

subsection \<open>\<^verbatim>\<open>POST /apply\<close>\<close>

definition cjs_apply_catch :: "state \<Rightarrow> js_error \<Rightarrow> outcome" where
  "cjs_apply_catch st err =
     \<lparr>reply = status_json 500
        (JObj [(''success'', JBool False), (''error'', JStr ''Failed to save application'')]),
      store = st,
      console = [[cross_mark @ '' Error inserting:'', message err]]\<rparr>"

text \<open>The object literal \<^verbatim>\<open>doc\<close> of the handler, with \<^verbatim>\<open>phoneNumber\<close>.\<close>

definition cjs_application_doc :: "env \<Rightarrow> request \<Rightarrow> string \<Rightarrow> string \<Rightarrow> jsval" where
  "cjs_application_doc e req passId qrDataUrl =
     (let phoneNumber =
            js_or (js_or (req_body req ''phone'') (req_body req ''whatsapp''))
              (req_body req ''number'')
      in JObj
              [(''passId'', JStr passId),
               (''qrCode'', JStr qrDataUrl),
               (''name'', req_body req ''name''),
               (''fatherName'', req_body req ''fatherName''),
               (''dob'', req_body req ''dob''),
               (''gender'', req_body req ''gender''),
               (''age'', JObj
                  [(''years'', req_body req ''ageYears''),
                   (''months'', req_body req ''ageMonths''),
                   (''days'', req_body req ''ageDays'')]),
               (''aadhar'', req_body req ''aadhar''),
               (''phone'', phoneNumber),
               (''whatsapp'', js_or (req_body req ''whatsapp'') phoneNumber),
               (''number'', js_or (req_body req ''number'') phoneNumber),
               (''email'', req_body req ''email''),
               (''photo'', (case req_files req ''photo'' of
                    Some filename \<Rightarrow> JStr (''/uploads/'' @ filename)
                  | None \<Rightarrow> JStr [])),
               (''aadharFile'', (case req_files req ''aadharFile'' of
                    Some filename \<Rightarrow> JStr (''/uploads/'' @ filename)
                  | None \<Rightarrow> JStr [])),
               (''address'', req_body req ''address''),
               (''district'', req_body req ''district''),
               (''mandal'', req_body req ''mandal''),
               (''village'', req_body req ''village''),
               (''pincode'', req_body req ''pincode''),
               (''city'', req_body req ''city''),
               (''passType'', req_body req ''passType''),
               (''paymentMode'', JStr ''FREE SCHEME''),
               (''deliveryMode'', JStr ''Bus Pass Counter''),
               (''counter'', req_body req ''counter''),
               (''createdAt'', JDate (new_Date e))])"

definition cjs_apply :: "env \<Rightarrow> state \<Rightarrow> request \<Rightarrow> outcome" where
  "cjs_apply e st req =
     (case applications st of
        None \<Rightarrow>
          \<lparr>reply = status_json 500 (JObj [(''error'', JStr ''DB not connected yet'')]),
           store = st, console = []\<rparr>
      | Some apps \<Rightarrow>
          (let passId = cjs_generateUniquePassId (Math_random e) in
           case QRCode_toDataURL e passId of
             Inl err \<Rightarrow> cjs_apply_catch st err
           | Inr qrDataUrl \<Rightarrow>
               (let doc = cjs_application_doc e req passId qrDataUrl
                in case store_fault e of
                     Some err \<Rightarrow> cjs_apply_catch st err
                   | None \<Rightarrow>
                       (let (result, doc', apps') =
                              insertOne (result_has_ops e) (driver_id e) doc apps
                        in \<lparr>reply = json (JObj
                               [(''success'', JBool True),
                                (''message'', JStr (check_mark @ '' Application stored in MongoDB'')),
                                (''id'', insertedId result),
                                (''passId'', JStr passId),
                                (''qrCode'', JStr qrDataUrl)]),
                             store = st\<lparr>applications := Some apps'\<rparr>,
                             console = []\<rparr>))))"

subsection \<open>\<^verbatim>\<open>GET /verify/:phone\<close>\<close>

definition cjs_verify :: "env \<Rightarrow> state \<Rightarrow> string \<Rightarrow> outcome" where
  "cjs_verify e st phone =
     (case applications st of
        None \<Rightarrow>
          \<lparr>reply = status_json 500
             (JObj [(''success'', JBool False), (''error'', JStr ''DB not connected'')]),
           store = st, console = []\<rparr>
      | Some apps \<Rightarrow>
          (case store_fault e of
             Some err \<Rightarrow>
               \<lparr>reply = status_json 500
                  (JObj [(''success'', JBool False), (''error'', JStr ''Server error'')]),
                store = st,
                console = [[cross_mark @ '' Verify error:'', message err]]\<rparr>
           | None \<Rightarrow>
               (let applicant = findOne
                      (Or [Eq ''phone'' (JStr phone), Eq ''whatsapp'' (JStr phone),
                           Eq ''number'' (JStr phone)]) apps
                in if truthy applicant
                   then \<lparr>reply = json
                           (JObj [(''success'', JBool True), (''id'', get_prop applicant ''_id'')]),
                         store = st, console = []\<rparr>
                   else \<lparr>reply = json (JObj [(''success'', JBool False)]),
                         store = st, console = []\<rparr>)))"

subsection \<open>\<^verbatim>\<open>GET /applicant/:id\<close>\<close>

definition cjs_applicant_catch :: "state \<Rightarrow> js_error \<Rightarrow> outcome" where
  "cjs_applicant_catch st err =
     \<lparr>reply = status_json 500
        (JObj [(''success'', JBool False), (''error'', JStr ''Server error'')]),
      store = st,
      console = [[cross_mark @ '' Fetch error:'', message err]]\<rparr>"

definition cjs_applicant :: "env \<Rightarrow> state \<Rightarrow> string \<Rightarrow> outcome" where
  "cjs_applicant e st ident =
     (case applications st of
        None \<Rightarrow>
          \<lparr>reply = status_json 500
             (JObj [(''success'', JBool False), (''error'', JStr ''DB not connected'')]),
           store = st, console = []\<rparr>
      | Some apps \<Rightarrow>
          (case new_ObjectId e (JStr ident) of
             Inl err \<Rightarrow> cjs_applicant_catch st err
           | Inr oid \<Rightarrow>
               (case store_fault e of
                  Some err \<Rightarrow> cjs_applicant_catch st err
                | None \<Rightarrow>
                    (let applicant = findOne (Eq ''_id'' (JOid oid)) apps
                     in if truthy applicant
                        then \<lparr>reply = json
                                (JObj [(''success'', JBool True), (''applicant'', applicant)]),
                              store = st, console = []\<rparr>
                        else \<lparr>reply = json (JObj [(''success'', JBool False)]),
                              store = st, console = []\<rparr>))))"

subsection \<open>\<^verbatim>\<open>GET /getApplicant/:passId\<close>\<close>

text \<open>The \<^verbatim>\<open>catch\<close> branch of this version writes nothing to the console.\<close>

definition cjs_getApplicant_catch :: "state \<Rightarrow> js_error \<Rightarrow> outcome" where
  "cjs_getApplicant_catch st err =
     \<lparr>reply = status_json 500
        (JObj [(''success'', JBool False), (''error'', JStr (message err))]),
      store = st,
      console = []\<rparr>"

definition cjs_getApplicant :: "env \<Rightarrow> state \<Rightarrow> string \<Rightarrow> outcome" where
  "cjs_getApplicant e st passId =
     (case applications st of
        None \<Rightarrow> cjs_getApplicant_catch st (undefined_read ''findOne'')
      | Some apps \<Rightarrow>
          (case store_fault e of
             Some err \<Rightarrow> cjs_getApplicant_catch st err
           | None \<Rightarrow>
               (let applicant = findOne (Eq ''passId'' (JStr passId)) apps
                in if \<not> truthy applicant
                   then \<lparr>reply = status_json 404
                           (JObj [(''success'', JBool False), (''msg'', JStr ''Not found'')]),
                         store = st, console = []\<rparr>
                   else \<lparr>reply = json applicant, store = st, console = []\<rparr>)))"

subsection \<open>\<^verbatim>\<open>POST /bookTicket\<close>\<close>

definition cjs_bookTicket_catch :: "state \<Rightarrow> js_error \<Rightarrow> outcome" where
  "cjs_bookTicket_catch st err =
     \<lparr>reply = status_json 500
        (JObj [(''success'', JBool False), (''error'', JStr (message err))]),
      store = st,
      console = [[cross_mark @ '' Ticket booking error:'', message err]]\<rparr>"

definition cjs_bookTicket :: "env \<Rightarrow> state \<Rightarrow> request \<Rightarrow> outcome" where
  "cjs_bookTicket e st req =
     (let applicantId = req_body req ''applicantId'';
          source = req_body req ''source'';
          destination = req_body req ''destination'';
          paymentType = req_body req ''paymentType'';
          amount = req_body req ''amount''
      in if \<not> truthy applicantId \<or> \<not> truthy source \<or> \<not> truthy destination \<or> \<not> truthy paymentType
         then \<lparr>reply = json (JObj [(''success'', JBool False), (''msg'', JStr ''Missing fields'')]),
               store = st, console = []\<rparr>
         else
           (case new_ObjectId e applicantId of
              Inl err \<Rightarrow> cjs_bookTicket_catch st err
            | Inr oid \<Rightarrow>
                (case (if paymentType = JStr ''PAID'' then Number_call amount else Inr (Num 0)) of
                   Inl err \<Rightarrow> cjs_bookTicket_catch st err
                 | Inr amt \<Rightarrow>
                     (let ticketDoc = JObj
                            [(''applicantId'', JOid oid),
                             (''source'', source),
                             (''destination'', destination),
                             (''paymentType'', paymentType),
                             (''amount'', JNum amt),
                             (''bookedAt'', JDate (new_Date e))]
                      in case tickets st of
                           None \<Rightarrow> cjs_bookTicket_catch st (undefined_read ''insertOne'')
                         | Some tks \<Rightarrow>
                             (case store_fault e of
                                Some err \<Rightarrow> cjs_bookTicket_catch st err
                              | None \<Rightarrow>
                                  (let (result, ticketDoc', tks') =
                                         insertOne (result_has_ops e) (driver_id e) ticketDoc tks
                                   in \<lparr>reply = json (JObj
                                          [(''success'', JBool True),
                                           (''ticket'', js_or (first_op result) ticketDoc')]),
                                        store = st\<lparr>tickets := Some tks'\<rparr>,
                                        console = []\<rparr>))))))"

section \<open>Notions used to state the properties\<close>

text \<open>The document that a handler appended to a collection, if it appended one.\<close>

definition inserted :: "jsval list option \<Rightarrow> jsval list option \<Rightarrow> jsval option" where
  "inserted before after =
     (case (before, after) of
        (Some a, Some b) \<Rightarrow>
          if length b = Suc (length a) \<and> take (length a) b = a then Some (last b) else None
      | _ \<Rightarrow> None)"

text \<open>The spec's canonical phone number: \<open>phone\<close> if supplied, else \<open>whatsapp\<close>, else
  \<open>number\<close>, where a field counts as supplied when it is present and not empty (truthy).\<close>

definition preferred_contact :: "request \<Rightarrow> jsval" where
  "preferred_contact req =
     (if truthy (req_body req ''phone'') then req_body req ''phone''
      else if truthy (req_body req ''whatsapp'') then req_body req ''whatsapp''
      else req_body req ''number'')"

text \<open>The spec's lookup condition: one of the three contact fields equals the query.\<close>

definition has_contact :: "string \<Rightarrow> jsval \<Rightarrow> bool" where
  "has_contact q d =
     (get_prop d ''phone'' = JStr q \<or> get_prop d ''whatsapp'' = JStr q \<or> get_prop d ''number'' = JStr q)"

section \<open>Example inputs\<close>

text \<open>An instance of the driver's constructor for the examples: a string of 24
  hexadecimal digits is an id, printed in lower case; this instance rejects all else.\<close>

definition to_lower :: "char \<Rightarrow> char" where
  "to_lower c = (let n = (of_char c :: nat) in if 65 \<le> n \<and> n \<le> 90 then char_of (n + 32) else c)"

definition ObjectId_of_hex :: "jsval \<Rightarrow> js_error + objid" where
  "ObjectId_of_hex v =
     (case v of
        JStr s \<Rightarrow>
          if length s = 24 \<and> list_all (radix_digit 16) s then Inr (ObjectId (map to_lower s))
          else Inl (Error ''input must be a 24 character hex string, 12 byte Uint8Array, or an integer'')
      | _ \<Rightarrow> Inl (Error ''input must be a 24 character hex string, 12 byte Uint8Array, or an integer''))"

text \<open>An environment, a connected empty store and form requests for the examples.\<close>

definition example_env :: env where
  "example_env =
     \<lparr>Math_random = 1 / 2,
      QRCode_toDataURL = (\<lambda>s. Inr (''data:image/png;base64,'' @ s)),
      new_Date = 1700000000000,
      driver_id = ObjectId ''65a1b2c3d4e5f60718293a4b'',
      store_fault = None,
      new_ObjectId = ObjectId_of_hex,
      result_has_ops = False\<rparr>"

definition connected :: state where
  "connected = \<lparr>applications = Some [], tickets = Some []\<rparr>"

definition form :: "(string \<times> jsval) list \<Rightarrow> request" where
  "form kvs = \<lparr>req_body = get_prop (JObj kvs), req_files = (\<lambda>k. None)\<rparr>"

definition booking :: "string \<Rightarrow> jsval \<Rightarrow> request" where
  "booking paymentType amount =
     form [(''applicantId'', JStr ''65a1b2c3d4e5f60718293a4b''),
           (''source'', JStr ''Hyderabad''),
           (''destination'', JStr ''Warangal''),
           (''paymentType'', JStr paymentType),
           (''amount'', amount)]"

definition ticket_of :: "string \<Rightarrow> jsnum \<Rightarrow> jsval" where
  "ticket_of paymentType amount =
     JObj [(''applicantId'', JOid (ObjectId ''65a1b2c3d4e5f60718293a4b'')),
           (''source'', JStr ''Hyderabad''),
           (''destination'', JStr ''Warangal''),
           (''paymentType'', JStr paymentType),
           (''amount'', JNum amount),
           (''bookedAt'', JDate 1700000000000),
           (''_id'', JOid (ObjectId ''65a1b2c3d4e5f60718293a4b''))]"

text \<open>An amount as a JSON body can carry it: an object with an own property \<^verbatim>\<open>toString\<close>.\<close>

definition unconvertible :: jsval where
  "unconvertible = JObj [(''toString'', JNum (Num 1))]"

definition issued_record :: jsval where
  "issued_record =
     JObj [(''passId'', JStr ''TSRTC-55000000''),
           (''phone'', JStr ''111''),
           (''whatsapp'', JStr ''111''),
           (''number'', JStr ''111''),
           (''_id'', JOid (ObjectId ''65a1b2c3d4e5f60718293a4b''))]"

section \<open>Auxiliary facts\<close>

lemma inserted_same [simp]: "inserted x x = None"
  by (cases x) (simp_all add: inserted_def)

lemma inserted_snoc [simp]: "inserted (Some a) (Some (a @ [d])) = Some d"
  by (simp add: inserted_def)

lemma find_None: "find P xs = None \<longleftrightarrow> (\<forall>x\<in>set xs. \<not> P x)"
  by (induction xs) auto

lemma find_SomeD: "find P xs = Some x \<Longrightarrow> x \<in> set xs \<and> P x"
  by (induction xs) (auto split: if_splits)

lemma findOne_none: "\<forall>d\<in>set c. \<not> matches q d \<Longrightarrow> findOne q c = JNull"
  unfolding findOne_def by (simp add: find_None [THEN iffD2] del: matches.simps)

lemma findOne_some:
  assumes "\<exists>d\<in>set c. matches q d"
  shows "\<exists>d\<in>set c. matches q d \<and> findOne q c = d"
proof -
  from assms have "find (matches q) c \<noteq> None"
    unfolding find_None by blast
  then obtain d where f: "find (matches q) c = Some d" by blast
  from find_SomeD [OF f] have "d \<in> set c" and "matches q d" by blast+
  moreover from f have "findOne q c = d" by (simp add: findOne_def del: matches.simps)
  ultimately show ?thesis by blast
qed

lemma matches_contact:
  "matches (Or [Eq ''phone'' (JStr q), Eq ''whatsapp'' (JStr q), Eq ''number'' (JStr q)]) d = has_contact q d"
  by (auto simp: has_contact_def)

lemma has_contact_truthy: "has_contact q d \<Longrightarrow> truthy d"
  by (cases d) (auto simp: has_contact_def)

lemma matches_Eq_truthy: "matches (Eq k v) d \<Longrightarrow> v \<noteq> JUndefined \<Longrightarrow> truthy d"
  by (cases d) auto

lemma esm_apply_cases:
  "esm_apply e st req =
     (case applications st of
        None \<Rightarrow>
          \<lparr>reply = status_json 500 (JObj [(''error'', JStr ''DB not connected yet'')]),
           store = st, console = []\<rparr>
      | Some apps \<Rightarrow>
          (case QRCode_toDataURL e (esm_generateUniquePassId (Math_random e)) of
             Inl err \<Rightarrow> esm_apply_catch st err
           | Inr qr \<Rightarrow>
               (case store_fault e of
                  Some err \<Rightarrow> esm_apply_catch st err
                | None \<Rightarrow>
                    \<lparr>reply = json (JObj
                       [(''success'', JBool True),
                        (''message'', JStr (check_mark @ '' Application stored in MongoDB'')),
                        (''id'', JOid (driver_id e)),
                        (''passId'', JStr (esm_generateUniquePassId (Math_random e))),
                        (''qrCode'', JStr qr)]),
                     store = st\<lparr>applications := Some (apps @
                       [assign_id (driver_id e)
                          (esm_application_doc e req (esm_generateUniquePassId (Math_random e)) qr)])\<rparr>,
                     console = []\<rparr>)))"
proof -
  have "get_prop (assign_id i (esm_application_doc e req p q)) ''_id'' = JOid i" for i p q
    by (simp add: esm_application_doc_def Let_def)
  then show ?thesis
    by (simp add: esm_apply_def Let_def insertOne_def split: option.splits sum.splits)
qed

lemma esm_doc_contacts:
  "get_prop (assign_id i (esm_application_doc e req p q)) ''phone'' = preferred_contact req"
  "get_prop (assign_id i (esm_application_doc e req p q)) ''whatsapp'' =
     js_or (req_body req ''whatsapp'') (preferred_contact req)"
  "get_prop (assign_id i (esm_application_doc e req p q)) ''number'' =
     js_or (req_body req ''number'') (preferred_contact req)"
  by (simp_all add: esm_application_doc_def Let_def preferred_contact_def js_or_def)

lemma esm_apply_inserted:
  assumes "inserted (applications st) (applications (store (esm_apply e st req))) = Some d"
  shows "\<exists>apps qr. applications st = Some apps
           \<and> applications (store (esm_apply e st req)) = Some (apps @ [d])
           \<and> d = assign_id (driver_id e)
                   (esm_application_doc e req (esm_generateUniquePassId (Math_random e)) qr)"
  using assms
  by (auto simp: esm_apply_cases esm_apply_catch_def split: option.splits sum.splits)

lemma esm_bookTicket_cases:
  "esm_bookTicket e st req =
     (if \<not> truthy (req_body req ''applicantId'') \<or> \<not> truthy (req_body req ''source'')
         \<or> \<not> truthy (req_body req ''destination'') \<or> \<not> truthy (req_body req ''paymentType'')
      then \<lparr>reply = json (JObj [(''success'', JBool False), (''msg'', JStr ''Missing fields'')]),
            store = st, console = []\<rparr>
      else case new_ObjectId e (req_body req ''applicantId'') of
        Inl err \<Rightarrow> esm_bookTicket_catch st err
      | Inr oid \<Rightarrow>
         if req_body req ''paymentType'' = JStr ''PAID'' \<and> toString_throws (req_body req ''amount'')
         then esm_bookTicket_catch st (Error ''Cannot convert object to primitive value'')
         else case tickets st of
           None \<Rightarrow> esm_bookTicket_catch st (undefined_read ''insertOne'')
         | Some tks \<Rightarrow>
            (case store_fault e of
               Some err \<Rightarrow> esm_bookTicket_catch st err
             | None \<Rightarrow>
                (let doc = JObj
                       [(''applicantId'', JOid oid),
                        (''source'', req_body req ''source''),
                        (''destination'', req_body req ''destination''),
                        (''paymentType'', req_body req ''paymentType''),
                        (''amount'', JNum (if req_body req ''paymentType'' = JStr ''PAID''
                                           then ToNumber (req_body req ''amount'') else Num 0)),
                        (''bookedAt'', JDate (new_Date e)),
                        (''_id'', JOid (driver_id e))]
                 in \<lparr>reply = json (JObj [(''success'', JBool True), (''ticket'', doc)]),
                      store = st\<lparr>tickets := Some (tks @ [doc])\<rparr>,
                      console = []\<rparr>)))"
  by (simp add: esm_bookTicket_def Let_def insertOne_def Number_call_def first_op_def js_or_def
           split: sum.splits option.splits)

lemma esm_bookTicket_inserted:
  assumes "inserted (tickets st) (tickets (store (esm_bookTicket e st req))) = Some d"
  shows "get_prop d ''amount'' =
           JNum (if req_body req ''paymentType'' = JStr ''PAID''
                 then ToNumber (req_body req ''amount'') else Num 0)"
  using assms
  by (auto simp: esm_bookTicket_cases esm_bookTicket_catch_def Let_def
           split: if_splits option.splits sum.splits)

lemma cjs_apply_cases:
  "cjs_apply e st req =
     (case applications st of
        None \<Rightarrow>
          \<lparr>reply = status_json 500 (JObj [(''error'', JStr ''DB not connected yet'')]),
           store = st, console = []\<rparr>
      | Some apps \<Rightarrow>
          (case QRCode_toDataURL e (cjs_generateUniquePassId (Math_random e)) of
             Inl err \<Rightarrow> cjs_apply_catch st err
           | Inr qr \<Rightarrow>
               (case store_fault e of
                  Some err \<Rightarrow> cjs_apply_catch st err
                | None \<Rightarrow>
                    \<lparr>reply = json (JObj
                       [(''success'', JBool True),
                        (''message'', JStr (check_mark @ '' Application stored in MongoDB'')),
                        (''id'', JOid (driver_id e)),
                        (''passId'', JStr (cjs_generateUniquePassId (Math_random e))),
                        (''qrCode'', JStr qr)]),
                     store = st\<lparr>applications := Some (apps @
                       [assign_id (driver_id e)
                          (cjs_application_doc e req (cjs_generateUniquePassId (Math_random e)) qr)])\<rparr>,
                     console = []\<rparr>)))"
proof -
  have "get_prop (assign_id i (cjs_application_doc e req p q)) ''_id'' = JOid i" for i p q
    by (simp add: cjs_application_doc_def Let_def)
  then show ?thesis
    by (simp add: cjs_apply_def Let_def insertOne_def split: option.splits sum.splits)
qed

lemma cjs_doc_contacts:
  "get_prop (assign_id i (cjs_application_doc e req p q)) ''phone'' = preferred_contact req"
  "get_prop (assign_id i (cjs_application_doc e req p q)) ''whatsapp'' =
     js_or (req_body req ''whatsapp'') (preferred_contact req)"
  "get_prop (assign_id i (cjs_application_doc e req p q)) ''number'' =
     js_or (req_body req ''number'') (preferred_contact req)"
  by (simp_all add: cjs_application_doc_def Let_def preferred_contact_def js_or_def)

lemma cjs_apply_inserted:
  assumes "inserted (applications st) (applications (store (cjs_apply e st req))) = Some d"
  shows "\<exists>apps qr. applications st = Some apps
           \<and> applications (store (cjs_apply e st req)) = Some (apps @ [d])
           \<and> d = assign_id (driver_id e)
                   (cjs_application_doc e req (cjs_generateUniquePassId (Math_random e)) qr)"
  using assms
  by (auto simp: cjs_apply_cases cjs_apply_catch_def split: option.splits sum.splits)

lemma cjs_bookTicket_cases:
  "cjs_bookTicket e st req =
     (if \<not> truthy (req_body req ''applicantId'') \<or> \<not> truthy (req_body req ''source'')
         \<or> \<not> truthy (req_body req ''destination'') \<or> \<not> truthy (req_body req ''paymentType'')
      then \<lparr>reply = json (JObj [(''success'', JBool False), (''msg'', JStr ''Missing fields'')]),
            store = st, console = []\<rparr>
      else case new_ObjectId e (req_body req ''applicantId'') of
        Inl err \<Rightarrow> cjs_bookTicket_catch st err
      | Inr oid \<Rightarrow>
         if req_body req ''paymentType'' = JStr ''PAID'' \<and> toString_throws (req_body req ''amount'')
         then cjs_bookTicket_catch st (Error ''Cannot convert object to primitive value'')
         else case tickets st of
           None \<Rightarrow> cjs_bookTicket_catch st (undefined_read ''insertOne'')
         | Some tks \<Rightarrow>
            (case store_fault e of
               Some err \<Rightarrow> cjs_bookTicket_catch st err
             | None \<Rightarrow>
                (let doc = JObj
                       [(''applicantId'', JOid oid),
                        (''source'', req_body req ''source''),
                        (''destination'', req_body req ''destination''),
                        (''paymentType'', req_body req ''paymentType''),
                        (''amount'', JNum (if req_body req ''paymentType'' = JStr ''PAID''
                                           then ToNumber (req_body req ''amount'') else Num 0)),
                        (''bookedAt'', JDate (new_Date e)),
                        (''_id'', JOid (driver_id e))]
                 in \<lparr>reply = json (JObj [(''success'', JBool True), (''ticket'', doc)]),
                      store = st\<lparr>tickets := Some (tks @ [doc])\<rparr>,
                      console = []\<rparr>)))"
  by (simp add: cjs_bookTicket_def Let_def insertOne_def Number_call_def first_op_def js_or_def
           split: sum.splits option.splits)

lemma cjs_bookTicket_inserted:
  assumes "inserted (tickets st) (tickets (store (cjs_bookTicket e st req))) = Some d"
  shows "get_prop d ''amount'' =
           JNum (if req_body req ''paymentType'' = JStr ''PAID''
                 then ToNumber (req_body req ''amount'') else Num 0)"
  using assms
  by (auto simp: cjs_bookTicket_cases cjs_bookTicket_catch_def Let_def
           split: if_splits option.splits sum.splits)

text \<open>The two versions build the same identifier and the same document.\<close>

lemma generators_agree: "cjs_generateUniquePassId r = esm_generateUniquePassId r"
  by (simp add: esm_generateUniquePassId_def cjs_generateUniquePassId_def)

lemma application_docs_agree: "cjs_application_doc e req p q = esm_application_doc e req p q"
  by (simp add: esm_application_doc_def cjs_application_doc_def)

subsection \<open>Rounding to binary64\<close>

lemma rhe_of_int [simp]: "rhe (of_int n) = n"
  by (simp add: rhe_def)

lemma rhe_upper: "y < of_int n + 1 / 2 \<Longrightarrow> rhe y \<le> n"
  unfolding rhe_def Let_def by (auto split: if_splits) linarith+

lemma rhe_lower: "of_int n \<le> y \<Longrightarrow> n \<le> rhe y"
  unfolding rhe_def Let_def by (auto split: if_splits) linarith+

lemma binade_bounds:
  assumes "0 < x"
  shows "2 powi binade x \<le> x \<and> x < 2 powi (binade x + 1)"
proof (cases "1 \<le> x")
  case True
  define n where "n = \<lfloor>x\<rfloor>"
  have n: "0 < n" using True by (simp add: n_def)
  from bitlen_bounds [OF n] have lo: "2 ^ nat (bitlen n - 1) \<le> n" and hi: "n < 2 ^ nat (bitlen n)"
    by auto
  have b1: "1 \<le> bitlen n" using n by (simp add: bitlen_alt_def)
  have "binade x = bitlen n - 1" using True by (simp add: binade_def n_def)
  moreover have "(2::rat) powi (bitlen n - 1) = 2 ^ nat (bitlen n - 1)"
    using b1 by (simp add: power_int_def)
  moreover have "(2::rat) powi (bitlen n - 1 + 1) = 2 ^ nat (bitlen n)"
    using b1 by (simp add: power_int_def)
  moreover have "(2::rat) ^ nat (bitlen n - 1) \<le> x"
  proof -
    have "(of_int (2 ^ nat (bitlen n - 1)) :: rat) \<le> of_int n" using lo by (simp only: of_int_le_iff)
    also have "\<dots> \<le> x" by (simp add: n_def)
    finally show ?thesis by simp
  qed
  moreover have "x < (2::rat) ^ nat (bitlen n)"
  proof -
    have "n + 1 \<le> 2 ^ nat (bitlen n)" using hi by simp
    then have "(of_int (n + 1) :: rat) \<le> of_int (2 ^ nat (bitlen n))" by (simp only: of_int_le_iff)
    moreover have "x < of_int (n + 1)" unfolding n_def by linarith
    ultimately show ?thesis by simp
  qed
  ultimately show ?thesis by simp
next
  case False
  define m where "m = \<lceil>1 / x\<rceil>"
  define c where "c = bitlen (m - 1)"
  from False assms have y: "1 < 1 / x" by simp
  then have m: "0 < m - 1" unfolding m_def by linarith
  from bitlen_bounds [OF m] have lo: "2 ^ nat (c - 1) \<le> m - 1" and hi: "m - 1 < 2 ^ nat c"
    by (auto simp: c_def)
  have c1: "1 \<le> c" using m by (simp add: bitlen_alt_def c_def)
  have b: "binade x = - c" using False by (simp add: binade_def m_def c_def)
  have "1 / x \<le> of_int m" unfolding m_def by linarith
  also have "(of_int m :: rat) \<le> of_int (2 ^ nat c)" using hi by (simp only: of_int_le_iff)
  finally have "1 / x \<le> 2 ^ nat c" by simp
  then have "1 \<le> 2 ^ nat c * x" using assms by (simp add: field_simps)
  then have l: "1 / 2 ^ nat c \<le> x" by (simp add: field_simps)
  have "(of_int (2 ^ nat (c - 1)) :: rat) \<le> of_int (m - 1)" using lo by (simp only: of_int_le_iff)
  also have "(of_int (m - 1) :: rat) < 1 / x" unfolding m_def by linarith
  finally have "2 ^ nat (c - 1) < 1 / x" by simp
  then have "2 ^ nat (c - 1) * x < 1" using assms by (simp add: field_simps)
  then have u: "x < 1 / 2 ^ nat (c - 1)" by (simp add: field_simps)
  have "(2::rat) powi (- c) = 1 / 2 ^ nat c"
    using c1 by (simp add: power_int_def field_simps)
  moreover have "(2::rat) powi (- c + 1) = 1 / 2 ^ nat (c - 1)"
    using c1 by (simp add: power_int_def field_simps)
  ultimately show ?thesis using l u b by simp
qed

lemma powi2_mono: "m \<le> n \<Longrightarrow> (2::rat) powi m \<le> 2 powi n"
  by (rule power_int_increasing) simp_all

lemma powi2_pos [simp]: "0 < (2::rat) powi n"
  by (simp add: zero_less_power_int)

lemma binade_less:
  assumes "0 < x" and "x < 2 powi n"
  shows "binade x < n"
proof (rule ccontr)
  assume "\<not> binade x < n"
  then have "(2::rat) powi n \<le> 2 powi binade x" by (intro powi2_mono) simp
  also have "\<dots> \<le> x" using binade_bounds [OF assms(1)] by simp
  finally show False using assms(2) by simp
qed

lemma binade_ge:
  assumes "2 powi n \<le> x"
  shows "n \<le> binade x"
proof (rule ccontr)
  assume "\<not> n \<le> binade x"
  then have *: "binade x + 1 \<le> n" by simp
  have "0 < x" using assms powi2_pos [of n] by linarith
  then have "x < 2 powi (binade x + 1)" using binade_bounds by simp
  also have "\<dots> \<le> 2 powi n" using * by (rule powi2_mono)
  finally show False using assms by simp
qed

lemma binade_eq:
  assumes "2 powi n \<le> x" and "x < 2 powi (n + 1)"
  shows "binade x = n"
proof -
  have "0 < x" using assms(1) powi2_pos [of n] by linarith
  from binade_less [OF this assms(2)] binade_ge [OF assms(1)] show ?thesis by simp
qed

lemma ulp_exp_le:
  assumes "0 < x" and "x < 2 powi n" and "- 1021 \<le> n"
  shows "ulp_exp x \<le> n - 53"
  using binade_less [OF assms(1,2)] assms(1,3) by (simp add: ulp_exp_def)

text \<open>A value on a coarser binary grid is on every finer one.\<close>

lemma on_grid:
  assumes "u \<le> j"
  shows "\<exists>M. of_int N * (2::rat) powi j = of_int M * 2 powi u"
proof -
  have "(2::rat) powi j = 2 powi (j - u) * 2 powi u"
    by (simp flip: power_int_add)
  also have "(2::rat) powi (j - u) = of_int (2 ^ nat (j - u))"
    using assms by (simp add: power_int_def)
  finally have "of_int N * (2::rat) powi j = of_int (N * 2 ^ nat (j - u)) * 2 powi u"
    by simp
  then show ?thesis by blast
qed

lemma round64_upper:
  assumes "0 < x" and "y = of_int M * 2 powi ulp_exp x" and "x < y + 2 powi ulp_exp x / 2"
  shows "round64 x \<le> y"
proof -
  let ?u = "(2::rat) powi ulp_exp x"
  have "x / ?u < of_int M + 1 / 2"
    using assms(2,3) by (simp add: field_simps)
  then have "rhe (x / ?u) \<le> M" by (rule rhe_upper)
  then have "(of_int (rhe (x / ?u)) :: rat) \<le> of_int M" by (simp only: of_int_le_iff)
  then have "of_int (rhe (x / ?u)) * ?u \<le> of_int M * ?u"
    by (simp add: mult_right_mono)
  then show ?thesis using assms(1,2) by (simp add: round64_def)
qed

lemma round64_lower:
  assumes "0 < x" and "y = of_int M * 2 powi ulp_exp x" and "y \<le> x"
  shows "y \<le> round64 x"
proof -
  let ?u = "(2::rat) powi ulp_exp x"
  have "of_int M \<le> x / ?u"
    using assms(2,3) by (simp add: field_simps)
  then have "M \<le> rhe (x / ?u)" by (rule rhe_lower)
  then have "(of_int M :: rat) \<le> of_int (rhe (x / ?u))" by (simp only: of_int_le_iff)
  then have "of_int M * ?u \<le> of_int (rhe (x / ?u)) * ?u"
    by (simp add: mult_right_mono)
  then show ?thesis using assms(1,2) by (simp add: round64_def)
qed

text \<open>Rounding is the identity on a value with at most 53 significant bits.\<close>

lemma round64_representable:
  assumes "\<bar>m\<bar> < 2 ^ 53" and "- 1074 \<le> k"
  shows "round64 (of_int m * 2 powi k) = of_int m * 2 powi k"
proof (cases "m = 0")
  case True
  then show ?thesis by (simp add: round64_def)
next
  case False
  let ?x = "of_int m * (2::rat) powi k"
  have ax: "\<bar>?x\<bar> = of_int \<bar>m\<bar> * 2 powi k"
    by (simp add: abs_mult)
  have pos: "0 < \<bar>?x\<bar>" using False by simp
  have "(of_int \<bar>m\<bar> :: rat) < of_int (2 ^ 53)" using assms(1) by (simp only: of_int_less_iff)
  then have "\<bar>?x\<bar> < 2 ^ 53 * 2 powi k"
    unfolding ax by (simp add: mult_strict_right_mono)
  also have "(2::rat) ^ 53 * 2 powi k = 2 powi (k + 53)"
    by (simp add: power_int_add)
  finally have "binade \<bar>?x\<bar> < k + 53" using pos by (intro binade_less)
  then have u: "ulp_exp ?x \<le> k" using assms(2) by (simp add: ulp_exp_def)
  from on_grid [OF u, of m] obtain M where M: "?x = of_int M * 2 powi ulp_exp ?x" by blast
  then have "?x / 2 powi ulp_exp ?x = of_int M" by (simp add: field_simps)
  then have "round64 ?x = of_int M * 2 powi ulp_exp ?x"
    using False by (simp add: round64_def)
  then show ?thesis using M by simp
qed

lemma double_below_one:
  assumes "is_double r" and "r < 1"
  shows "r \<le> 1 - 1 / 2 ^ 53"
proof (rule ccontr)
  assume "\<not> r \<le> 1 - 1 / 2 ^ 53"
  then have lo: "1 - 1 / 2 ^ 53 < r" by simp
  then have h: "2 powi (- 1) \<le> r" by simp
  have "r < 2 powi (- 1 + 1)" using assms(2) by simp
  from binade_eq [OF h this] have "binade r = - 1" .
  moreover have "\<bar>r\<bar> = r" using lo by simp
  ultimately have u: "ulp_exp r = - 53" by (simp add: ulp_exp_def)
  have "r \<noteq> 0" using lo by auto
  with assms(1) u have "r = of_int (rhe (r / 2 powi (- 53))) * 2 powi (- 53)"
    by (simp add: is_double_def round64_def)
  then obtain K :: int where K: "r = of_int K * 2 powi (- 53)" by blast
  then have r: "r = of_int K / 2 ^ 53" by (simp add: power_int_minus field_simps)
  from lo have "2 ^ 53 - 1 < r * 2 ^ 53" by (simp add: field_simps)
  then have "(of_int (2 ^ 53 - 1) :: rat) < of_int K" unfolding r by simp
  then have a: "2 ^ 53 - 1 < K" by (simp only: of_int_less_iff)
  from assms(2) have "r * 2 ^ 53 < 2 ^ 53" by simp
  then have "(of_int K :: rat) < of_int (2 ^ 53)" unfolding r by simp
  then have b: "K < 2 ^ 53" by (simp only: of_int_less_iff)
  from a b show False by simp
qed

lemma product_bound:
  assumes "0 \<le> r" and "r \<le> 1 - 1 / 2 ^ 53"
  shows "0 \<le> js_mul r 90000000 \<and> js_mul r 90000000 \<le> 90000000 - 1 / 2 ^ 26"
proof (cases "r = 0")
  case True
  then show ?thesis by (simp add: js_mul_def round64_def)
next
  case False
  define p where "p = r * 90000000"
  define u where "u = ulp_exp p"
  have pos: "0 < p" using False assms(1) by (simp add: p_def)
  have pP: "p \<le> 90000000 - 90000000 / 2 ^ 53"
    using assms(2) by (simp add: p_def field_simps)
  then have "p < 2 powi 27" by simp
  from ulp_exp_le [OF pos this] have u26: "u \<le> - 26" by (simp add: u_def)
  have "(90000000 - 1 / 2 ^ 26 :: rat) = of_int (90000000 * 2 ^ 26 - 1) * 2 powi (- 26)"
    by (simp add: power_int_minus field_simps)
  with on_grid [OF u26] obtain M where M: "(90000000 - 1 / 2 ^ 26 :: rat) = of_int M * 2 powi u"
    by metis
  have near: "p < (90000000 - 1 / 2 ^ 26) + 2 powi u / 2"
  proof (cases "u = - 26")
    case True
    have "p < 90000000 - 1 / 2 ^ 26 + 1 / 2 ^ 27" using pP by simp
    then show ?thesis using True by (simp add: power_int_minus field_simps)
  next
    case False
    with u26 have "u < - 26" by simp
    then have "binade p - 52 < - 26" by (simp add: u_def ulp_exp_def pos less_imp_le)
    then have "binade p + 1 \<le> 26" by simp
    then have "(2::rat) powi (binade p + 1) \<le> 2 powi 26" by (rule powi2_mono)
    with binade_bounds [OF pos] have "p < 2 powi 26" by simp
    then have "p < 90000000 - 1 / 2 ^ 26" by simp
    moreover have "0 < (2::rat) powi u / 2" by simp
    ultimately show ?thesis by linarith
  qed
  have "round64 p \<le> 90000000 - 1 / 2 ^ 26"
    using pos M near unfolding u_def by (rule round64_upper)
  moreover have "0 \<le> round64 p"
    by (rule round64_lower [OF pos, of 0 0]) (use pos in simp_all)
  ultimately show ?thesis by (simp add: js_mul_def p_def)
qed

lemma sum_bound:
  assumes "0 \<le> p" and "p \<le> 90000000 - 1 / 2 ^ 26"
  shows "10000000 \<le> js_add 10000000 p \<and> js_add 10000000 p \<le> 100000000 - 1 / 2 ^ 26"
proof -
  define s where "s = 10000000 + p"
  define u where "u = ulp_exp s"
  have lo: "10000000 \<le> s" and hi: "s \<le> 100000000 - 1 / 2 ^ 26"
    using assms by (simp_all add: s_def)
  have pos: "0 < s" using lo by simp
  have "s < 2 powi 27" using hi by simp
  from ulp_exp_le [OF pos this] have u26: "u \<le> - 26" by (simp add: u_def)
  have "(100000000 - 1 / 2 ^ 26 :: rat) = of_int (100000000 * 2 ^ 26 - 1) * 2 powi (- 26)"
    by (simp add: power_int_minus field_simps)
  with on_grid [OF u26] obtain M where M: "(100000000 - 1 / 2 ^ 26 :: rat) = of_int M * 2 powi u"
    by metis
  have "0 < (2::rat) powi u / 2" by simp
  with hi have near: "s < (100000000 - 1 / 2 ^ 26) + 2 powi u / 2" by linarith
  have "round64 s \<le> 100000000 - 1 / 2 ^ 26"
    using pos M near unfolding u_def by (rule round64_upper)
  moreover
  have u0: "u \<le> 0" using u26 by simp
  from on_grid [OF u0, of 10000000] obtain L
    where "of_int 10000000 * (2::rat) powi 0 = of_int L * 2 powi u" by blast
  then have L: "(10000000 :: rat) = of_int L * 2 powi u" by simp
  have "10000000 \<le> round64 s"
    using pos L lo unfolding u_def by (rule round64_lower)
  ultimately show ?thesis by (simp add: js_add_def s_def)
qed

lemma random_number_range:
  assumes "is_double r" and "0 \<le> r" and "r < 1"
  shows "10000000 \<le> Math_floor (js_add 10000000 (js_mul r 90000000))
       \<and> Math_floor (js_add 10000000 (js_mul r 90000000)) \<le> 99999999"
proof -
  from double_below_one [OF assms(1,3)] have "r \<le> 1 - 1 / 2 ^ 53" .
  from product_bound [OF assms(2) this] sum_bound
  have b: "10000000 \<le> js_add 10000000 (js_mul r 90000000)"
    and c: "js_add 10000000 (js_mul r 90000000) \<le> 100000000 - 1 / 2 ^ 26"
    by blast+
  from c have "js_add 10000000 (js_mul r 90000000) < 100000000" by simp
  then have "Math_floor (js_add 10000000 (js_mul r 90000000)) < 100000000"
    unfolding Math_floor_def by (simp add: floor_less_iff)
  moreover from b have "10000000 \<le> Math_floor (js_add 10000000 (js_mul r 90000000))"
    unfolding Math_floor_def by (simp add: le_floor_iff)
  ultimately show ?thesis by simp
qed

subsection \<open>Decimal digits\<close>

lemma is_digit_digit_char: "d < 10 \<Longrightarrow> is_digit (digit_char d)"
  by (simp add: is_digit_def digit_char_def)

lemma digit_val_digit_char: "d < 10 \<Longrightarrow> digit_val (digit_char d) = d"
  by (simp add: digit_val_def digit_char_def)

lemma digits_all_digit: "\<forall>c\<in>set (digits n). is_digit c"
proof (induction n rule: digits.induct)
  case (1 n)
  show ?case
  proof (cases "n < 10")
    case True
    then show ?thesis by (subst digits.simps) (simp add: is_digit_digit_char)
  next
    case False
    with 1 show ?thesis by (subst digits.simps) (simp add: is_digit_digit_char)
  qed
qed

lemma decimal_value_snoc: "decimal_value (s @ [c]) = 10 * decimal_value s + digit_val c"
  by (simp add: decimal_value_def)

lemma decimal_value_digits: "decimal_value (digits n) = n"
proof (induction n rule: digits.induct)
  case (1 n)
  show ?case
  proof (cases "n < 10")
    case True
    then show ?thesis
      by (subst digits.simps) (simp add: decimal_value_def digit_val_digit_char)
  next
    case False
    with 1 have "decimal_value (digits (n div 10)) = n div 10" by simp
    with False show ?thesis
      by (subst digits.simps) (simp add: decimal_value_snoc digit_val_digit_char)
  qed
qed

lemma length_digits: "10 ^ k \<le> n \<Longrightarrow> n < 10 ^ Suc k \<Longrightarrow> length (digits n) = Suc k"
proof (induction k arbitrary: n)
  case 0
  then show ?case by (subst digits.simps) simp
next
  case (Suc k)
  define a :: nat where "a = 10 ^ k"
  from Suc.prems have p: "10 * a \<le> n" "n < 10 * (10 * a)"
    by (simp_all add: a_def)
  have a1: "1 \<le> a" by (simp add: a_def)
  from p have "a \<le> n div 10" and "n div 10 < 10 * a"
    by arith+
  with Suc.IH have "length (digits (n div 10)) = Suc k" by (simp add: a_def)
  moreover have "\<not> n < 10" using p(1) a1 by arith
  ultimately show ?case by (subst digits.simps) simp
qed

subsection \<open>Lookup by contact\<close>

lemma verify_lookup:
  assumes "applications st = Some apps" and "store_fault e = None"
  shows "((\<exists>d\<in>set apps. has_contact q d) \<longrightarrow>
            (\<exists>d\<in>set apps. has_contact q d \<and>
               reply (esm_verify e st q) =
                 \<lparr>status = 200, body = JObj [(''success'', JBool True), (''id'', get_prop d ''_id'')]\<rparr>))
       \<and> ((\<forall>d\<in>set apps. \<not> has_contact q d) \<longrightarrow>
            reply (esm_verify e st q) = \<lparr>status = 200, body = JObj [(''success'', JBool False)]\<rparr>)
       \<and> reply (cjs_verify e st q) = reply (esm_verify e st q)
       \<and> store (esm_verify e st q) = st \<and> store (cjs_verify e st q) = st"
proof -
  let ?q = "Or [Eq ''phone'' (JStr q), Eq ''whatsapp'' (JStr q), Eq ''number'' (JStr q)]"
  have v: "esm_verify e st q =
      \<lparr>reply = json (if truthy (findOne ?q apps)
                      then JObj [(''success'', JBool True), (''id'', get_prop (findOne ?q apps) ''_id'')]
                      else JObj [(''success'', JBool False)]),
       store = st, console = []\<rparr>"
    using assms by (simp add: esm_verify_def Let_def del: matches.simps)
  have c: "cjs_verify e st q = esm_verify e st q"
    using assms by (simp add: esm_verify_def cjs_verify_def Let_def del: matches.simps)
  have found: "\<exists>d\<in>set apps. has_contact q d \<and>
      reply (esm_verify e st q) =
        \<lparr>status = 200, body = JObj [(''success'', JBool True), (''id'', get_prop d ''_id'')]\<rparr>"
    if "\<exists>d\<in>set apps. has_contact q d"
  proof -
    from that have "\<exists>d\<in>set apps. matches ?q d" unfolding matches_contact .
    from findOne_some [OF this] obtain d where d: "d \<in> set apps" "matches ?q d" "findOne ?q apps = d"
      by blast
    from d(2) have h: "has_contact q d" unfolding matches_contact .
    then have "truthy d" by (rule has_contact_truthy)
    with d(3) have "reply (esm_verify e st q) =
        \<lparr>status = 200, body = JObj [(''success'', JBool True), (''id'', get_prop d ''_id'')]\<rparr>"
      unfolding v by (simp add: json_def)
    with d(1) h show ?thesis by blast
  qed
  have missing: "reply (esm_verify e st q) = \<lparr>status = 200, body = JObj [(''success'', JBool False)]\<rparr>"
    if "\<forall>d\<in>set apps. \<not> has_contact q d"
  proof -
    from that have "\<forall>d\<in>set apps. \<not> matches ?q d" unfolding matches_contact .
    from findOne_none [OF this] show ?thesis
      unfolding v by (simp add: json_def)
  qed
  from found missing c v show ?thesis by simp
qed

lemma inserted_member:
  assumes "inserted before after = Some d"
  shows "\<exists>b. after = Some b \<and> d \<in> set b"
proof -
  from assms obtain a b where ab: "before = Some a" "after = Some b"
    and l: "length b = Suc (length a)" and d: "d = last b"
    by (auto simp: inserted_def split: option.splits if_splits)
  from l have "b \<noteq> []" by auto
  with d have "d \<in> set b" by simp
  with ab show ?thesis by simp
qed

lemma created_record_contact:
  assumes "inserted (applications st0) (applications (store (esm_apply e0 st0 req))) = Some d
         \<or> inserted (applications st0) (applications (store (cjs_apply e0 st0 req))) = Some d"
    and "req_body req ''phone'' = JStr q \<and> q \<noteq> []
         \<or> \<not> truthy (req_body req ''phone'') \<and> \<not> truthy (req_body req ''whatsapp'')
            \<and> req_body req ''number'' = JStr q \<and> q \<noteq> []"
  shows "has_contact q d"
proof -
  from assms(2) have p: "preferred_contact req = JStr q"
    by (auto simp: preferred_contact_def)
  from assms(1) have "get_prop d ''phone'' = JStr q"
  proof
    assume "inserted (applications st0) (applications (store (esm_apply e0 st0 req))) = Some d"
    from esm_apply_inserted [OF this] p show ?thesis
      by (auto simp: esm_doc_contacts)
  next
    assume "inserted (applications st0) (applications (store (cjs_apply e0 st0 req))) = Some d"
    from cjs_apply_inserted [OF this] p show ?thesis
      by (auto simp: cjs_doc_contacts)
  qed
  then show ?thesis by (simp add: has_contact_def)
qed

lemma verify_after_insert:
  assumes "inserted before (applications st) = Some d" and "has_contact q d"
    and "store_fault e = None"
  shows "\<exists>i. reply (esm_verify e st q) =
           \<lparr>status = 200, body = JObj [(''success'', JBool True), (''id'', i)]\<rparr>"
proof -
  from inserted_member [OF assms(1)] obtain b where b: "applications st = Some b" "d \<in> set b"
    by blast
  with assms(2) have "\<exists>x\<in>set b. has_contact q x" by blast
  with verify_lookup [OF b(1) assms(3), of q] show ?thesis by blast
qed

section \<open>The claims\<close>

text \<open>
  C1. Every call to the identifier generator returns \<^verbatim>\<open>TSRTC-\<close> followed by exactly
  eight decimal digits whose value lies between 10000000 and 99999999. The call is
  determined by the value \<open>r\<close> of \<^verbatim>\<open>Math.random()\<close>, which ECMAScript makes a binary64
  number with \<open>0 \<le> r < 1\<close>; the product and the sum are rounded as binary64 arithmetic
  rounds them. Both copies of the function are covered.
\<close>

theorem generateUniquePassId_format:
  assumes "is_double r" and "0 \<le> r" and "r < 1"
  shows "\<exists>ds. esm_generateUniquePassId r = ''TSRTC-'' @ ds
            \<and> cjs_generateUniquePassId r = ''TSRTC-'' @ ds
            \<and> length ds = 8 \<and> (\<forall>c\<in>set ds. is_digit c)
            \<and> 10000000 \<le> decimal_value ds \<and> decimal_value ds \<le> 99999999"
proof -
  define n where "n = Math_floor (js_add 10000000 (js_mul r 90000000))"
  from random_number_range [OF assms] have lo: "10000000 \<le> n" and hi: "n \<le> 99999999"
    by (simp_all add: n_def)
  then have s: "Number_toString n = digits (nat n)"
    by (simp add: Number_toString_def)
  have "10 ^ 7 \<le> nat n" and "nat n < 10 ^ Suc 7" using lo hi by simp_all
  then have "length (digits (nat n)) = Suc 7" by (rule length_digits)
  moreover have "decimal_value (digits (nat n)) = nat n" by (rule decimal_value_digits)
  moreover have "\<forall>c\<in>set (digits (nat n)). is_digit c" by (rule digits_all_digit)
  moreover have "esm_generateUniquePassId r = ''TSRTC-'' @ digits (nat n)"
    and "cjs_generateUniquePassId r = ''TSRTC-'' @ digits (nat n)"
    using s by (simp_all add: esm_generateUniquePassId_def cjs_generateUniquePassId_def n_def Let_def)
  ultimately show ?thesis using lo hi by auto
qed

theorem generateUniquePassId_format_witness:
  "is_double (1 / 2) \<and> (0::rat) \<le> 1 / 2 \<and> (1 / 2 :: rat) < 1
   \<and> (\<exists>ds. esm_generateUniquePassId (1 / 2) = ''TSRTC-'' @ ds
            \<and> cjs_generateUniquePassId (1 / 2) = ''TSRTC-'' @ ds
            \<and> length ds = 8 \<and> (\<forall>c\<in>set ds. is_digit c)
            \<and> 10000000 \<le> decimal_value ds \<and> decimal_value ds \<le> 99999999)"
proof -
  have "round64 (of_int 1 * 2 powi (- 1)) = of_int 1 * 2 powi (- 1)"
    by (rule round64_representable) simp_all
  then have d: "is_double (1 / 2)"
    by (simp add: is_double_def)
  show ?thesis
    using generateUniquePassId_format [OF d] d by simp
qed

text \<open>
  C2. A booking request that passes the checks (the four required fields present, the
  applicant id accepted by the constructor, the store connected and answering, and,
  when \<^verbatim>\<open>paymentType\<close> is \<^verbatim>\<open>PAID\<close>, an amount that \<^verbatim>\<open>Number\<close> can convert) appends
  exactly one ticket in each version, and its amount is \<^verbatim>\<open>Number(amount)\<close> when
  \<^verbatim>\<open>paymentType\<close> is the string \<^verbatim>\<open>PAID\<close> and zero for every other \<^verbatim>\<open>paymentType\<close>,
  whatever the amount. Moreover every ticket that any booking request stores has that
  amount. In the example, \<^verbatim>\<open>PAID\<close> with amount \<^verbatim>\<open>"500"\<close> stores 500 and \<^verbatim>\<open>FREE\<close> with
  amount \<^verbatim>\<open>"500"\<close> stores 0.
\<close>

theorem bookTicket_amount_policy:
  "(truthy (req_body req ''applicantId'') \<and> truthy (req_body req ''source'')
      \<and> truthy (req_body req ''destination'') \<and> truthy (req_body req ''paymentType'')
      \<and> new_ObjectId e (req_body req ''applicantId'') = Inr oid
      \<and> (req_body req ''paymentType'' = JStr ''PAID'' \<longrightarrow> \<not> toString_throws (req_body req ''amount''))
      \<and> tickets st = Some tks \<and> store_fault e = None \<longrightarrow>
    (\<exists>doc. esm_bookTicket e st req =
              \<lparr>reply = \<lparr>status = 200, body = JObj [(''success'', JBool True), (''ticket'', doc)]\<rparr>,
               store = st\<lparr>tickets := Some (tks @ [doc])\<rparr>, console = []\<rparr>
          \<and> cjs_bookTicket e st req =
              \<lparr>reply = \<lparr>status = 200, body = JObj [(''success'', JBool True), (''ticket'', doc)]\<rparr>,
               store = st\<lparr>tickets := Some (tks @ [doc])\<rparr>, console = []\<rparr>
          \<and> get_prop doc ''amount'' =
              (if req_body req ''paymentType'' = JStr ''PAID''
               then JNum (ToNumber (req_body req ''amount'')) else JNum (Num 0))))
   \<and> (inserted (tickets st) (tickets (store (esm_bookTicket e st req))) = Some d
        \<or> inserted (tickets st) (tickets (store (cjs_bookTicket e st req))) = Some d \<longrightarrow>
      get_prop d ''amount'' =
        (if req_body req ''paymentType'' = JStr ''PAID''
         then JNum (ToNumber (req_body req ''amount'')) else JNum (Num 0)))"
proof -
  have "get_prop d ''amount'' =
        (if req_body req ''paymentType'' = JStr ''PAID''
         then JNum (ToNumber (req_body req ''amount'')) else JNum (Num 0))"
    if "inserted (tickets st) (tickets (store (esm_bookTicket e st req))) = Some d
        \<or> inserted (tickets st) (tickets (store (cjs_bookTicket e st req))) = Some d"
    using that esm_bookTicket_inserted [of st e req d] cjs_bookTicket_inserted [of st e req d]
    by (auto split: if_splits)
  then show ?thesis
    by (simp add: esm_bookTicket_cases cjs_bookTicket_cases json_def Let_def)
qed

theorem bookTicket_amount_policy_witness:
  "new_ObjectId example_env (req_body (booking ''PAID'' (JStr ''500'')) ''applicantId'') =
     Inr (ObjectId ''65a1b2c3d4e5f60718293a4b'')
   \<and> \<not> toString_throws (req_body (booking ''PAID'' (JStr ''500'')) ''amount'')
   \<and> store (esm_bookTicket example_env connected (booking ''PAID'' (JStr ''500''))) =
       connected\<lparr>tickets := Some [ticket_of ''PAID'' (Num 500)]\<rparr>
   \<and> store (cjs_bookTicket example_env connected (booking ''PAID'' (JStr ''500''))) =
       connected\<lparr>tickets := Some [ticket_of ''PAID'' (Num 500)]\<rparr>
   \<and> get_prop (ticket_of ''PAID'' (Num 500)) ''amount'' = JNum (Num 500)
   \<and> store (esm_bookTicket example_env connected (booking ''FREE'' (JStr ''500''))) =
       connected\<lparr>tickets := Some [ticket_of ''FREE'' (Num 0)]\<rparr>
   \<and> store (cjs_bookTicket example_env connected (booking ''FREE'' (JStr ''500''))) =
       connected\<lparr>tickets := Some [ticket_of ''FREE'' (Num 0)]\<rparr>
   \<and> get_prop (ticket_of ''FREE'' (Num 0)) ''amount'' = JNum (Num 0)"
proof -
  have "round64 (of_int 500 * 2 powi 0) = of_int 500 * 2 powi 0"
    by (rule round64_representable) simp_all
  then have r: "round64 500 = 500" by simp
  have n: "StringToNumber ''500'' = Num 500"
    by (simp add: StringToNumber_def ws1_def ws2_def ws3_def radix_of_def unsigned_decimal_def
          is_digit_def decimal_value_def digit_val_def round_result_def all_ws_def Let_def r)
  have o: "new_ObjectId example_env (JStr ''65a1b2c3d4e5f60718293a4b'') =
             Inr (ObjectId ''65a1b2c3d4e5f60718293a4b'')"
    by (simp add: example_env_def ObjectId_of_hex_def radix_digit_def hex_val_def to_lower_def)
  have e: "new_Date example_env = 1700000000000" "driver_id example_env = ObjectId ''65a1b2c3d4e5f60718293a4b''"
    "store_fault example_env = None"
    by (simp_all add: example_env_def)
  show ?thesis
    using bookTicket_amount_policy [of "booking ''PAID'' (JStr ''500'')" example_env
        "ObjectId ''65a1b2c3d4e5f60718293a4b''" connected "[]"]
      bookTicket_amount_policy [of "booking ''FREE'' (JStr ''500'')" example_env
        "ObjectId ''65a1b2c3d4e5f60718293a4b''" connected "[]"]
    by (simp add: esm_bookTicket_cases cjs_bookTicket_cases booking_def form_def connected_def
          ticket_of_def Let_def o e n)
qed

text \<open>
  C3. With the store connected, the QR encoder and the insert succeeding, an application
  submission appends one record in each version, in which \<open>phone\<close> is the canonical
  value (the phone input if supplied, else whatsapp, else number), and \<open>whatsapp\<close> and
  \<open>number\<close> are their own input when it is supplied and the canonical value otherwise;
  an input counts as supplied when it is present and not empty, which is the test
  \<^verbatim>\<open>||\<close> makes. Submitting only whatsapp gives all three fields that value. Moreover
  every record that any submission persists has these contact fields.
\<close>

theorem apply_contact_fields:
  "(applications st = Some apps
      \<and> QRCode_toDataURL e (esm_generateUniquePassId (Math_random e)) = Inr qr
      \<and> store_fault e = None \<longrightarrow>
    (\<exists>d. store (esm_apply e st req) = st\<lparr>applications := Some (apps @ [d])\<rparr>
        \<and> store (cjs_apply e st req) = st\<lparr>applications := Some (apps @ [d])\<rparr>
        \<and> get_prop d ''phone'' = preferred_contact req
        \<and> get_prop d ''whatsapp'' =
            (if truthy (req_body req ''whatsapp'') then req_body req ''whatsapp''
             else preferred_contact req)
        \<and> get_prop d ''number'' =
            (if truthy (req_body req ''number'') then req_body req ''number''
             else preferred_contact req)
        \<and> (truthy (req_body req ''phone'') \<longrightarrow> get_prop d ''phone'' = req_body req ''phone'')
        \<and> (req_body req ''phone'' = JUndefined \<and> req_body req ''number'' = JUndefined
             \<and> truthy (req_body req ''whatsapp'') \<longrightarrow>
           get_prop d ''phone'' = req_body req ''whatsapp''
           \<and> get_prop d ''whatsapp'' = req_body req ''whatsapp''
           \<and> get_prop d ''number'' = req_body req ''whatsapp'')))
   \<and> (inserted (applications st) (applications (store (esm_apply e st req))) = Some d'
        \<or> inserted (applications st) (applications (store (cjs_apply e st req))) = Some d' \<longrightarrow>
      get_prop d' ''phone'' = preferred_contact req
      \<and> get_prop d' ''whatsapp'' =
          (if truthy (req_body req ''whatsapp'') then req_body req ''whatsapp''
           else preferred_contact req)
      \<and> get_prop d' ''number'' =
          (if truthy (req_body req ''number'') then req_body req ''number''
           else preferred_contact req))"
proof -
  have stored: "get_prop d' ''phone'' = preferred_contact req
       \<and> get_prop d' ''whatsapp'' = js_or (req_body req ''whatsapp'') (preferred_contact req)
       \<and> get_prop d' ''number'' = js_or (req_body req ''number'') (preferred_contact req)"
    if "inserted (applications st) (applications (store (esm_apply e st req))) = Some d'
        \<or> inserted (applications st) (applications (store (cjs_apply e st req))) = Some d'"
    using that
  proof
    assume "inserted (applications st) (applications (store (esm_apply e st req))) = Some d'"
    from esm_apply_inserted [OF this] show ?thesis
      by (auto simp: esm_doc_contacts)
  next
    assume "inserted (applications st) (applications (store (cjs_apply e st req))) = Some d'"
    from cjs_apply_inserted [OF this] show ?thesis
      by (auto simp: cjs_doc_contacts)
  qed
  have appended: "\<exists>d. store (esm_apply e st req) = st\<lparr>applications := Some (apps @ [d])\<rparr>
        \<and> store (cjs_apply e st req) = st\<lparr>applications := Some (apps @ [d])\<rparr>
        \<and> get_prop d ''phone'' = preferred_contact req
        \<and> get_prop d ''whatsapp'' = js_or (req_body req ''whatsapp'') (preferred_contact req)
        \<and> get_prop d ''number'' = js_or (req_body req ''number'') (preferred_contact req)"
    if "applications st = Some apps"
      and "QRCode_toDataURL e (esm_generateUniquePassId (Math_random e)) = Inr qr"
      and "store_fault e = None"
    using that
    by (intro exI [of _ "assign_id (driver_id e)
            (esm_application_doc e req (esm_generateUniquePassId (Math_random e)) qr)"])
       (simp add: esm_apply_cases cjs_apply_cases generators_agree application_docs_agree
          esm_doc_contacts)
  show ?thesis
  proof (rule conjI; rule impI)
    assume "applications st = Some apps
      \<and> QRCode_toDataURL e (esm_generateUniquePassId (Math_random e)) = Inr qr
      \<and> store_fault e = None"
    then have h: "applications st = Some apps"
      "QRCode_toDataURL e (esm_generateUniquePassId (Math_random e)) = Inr qr"
      "store_fault e = None"
      by simp_all
    from appended [OF h] obtain d where
      d: "store (esm_apply e st req) = st\<lparr>applications := Some (apps @ [d])\<rparr>"
         "store (cjs_apply e st req) = st\<lparr>applications := Some (apps @ [d])\<rparr>"
         "get_prop d ''phone'' = preferred_contact req"
         "get_prop d ''whatsapp'' = js_or (req_body req ''whatsapp'') (preferred_contact req)"
         "get_prop d ''number'' = js_or (req_body req ''number'') (preferred_contact req)"
      by (elim exE conjE)
    show "\<exists>d. store (esm_apply e st req) = st\<lparr>applications := Some (apps @ [d])\<rparr>
        \<and> store (cjs_apply e st req) = st\<lparr>applications := Some (apps @ [d])\<rparr>
        \<and> get_prop d ''phone'' = preferred_contact req
        \<and> get_prop d ''whatsapp'' =
            (if truthy (req_body req ''whatsapp'') then req_body req ''whatsapp''
             else preferred_contact req)
        \<and> get_prop d ''number'' =
            (if truthy (req_body req ''number'') then req_body req ''number''
             else preferred_contact req)
        \<and> (truthy (req_body req ''phone'') \<longrightarrow> get_prop d ''phone'' = req_body req ''phone'')
        \<and> (req_body req ''phone'' = JUndefined \<and> req_body req ''number'' = JUndefined
             \<and> truthy (req_body req ''whatsapp'') \<longrightarrow>
           get_prop d ''phone'' = req_body req ''whatsapp''
           \<and> get_prop d ''whatsapp'' = req_body req ''whatsapp''
           \<and> get_prop d ''number'' = req_body req ''whatsapp'')"
      by (rule exI [of _ d]) (simp add: d js_or_def preferred_contact_def)
  next
    assume "inserted (applications st) (applications (store (esm_apply e st req))) = Some d'
        \<or> inserted (applications st) (applications (store (cjs_apply e st req))) = Some d'"
    from stored [OF this]
    show "get_prop d' ''phone'' = preferred_contact req
      \<and> get_prop d' ''whatsapp'' =
          (if truthy (req_body req ''whatsapp'') then req_body req ''whatsapp''
           else preferred_contact req)
      \<and> get_prop d' ''number'' =
          (if truthy (req_body req ''number'') then req_body req ''number''
           else preferred_contact req)"
      by (simp add: js_or_def)
  qed
qed

theorem apply_contact_fields_witness:
  "applications connected = Some []
   \<and> QRCode_toDataURL example_env (esm_generateUniquePassId (Math_random example_env)) =
       Inr (''data:image/png;base64,'' @ esm_generateUniquePassId (Math_random example_env))
   \<and> store_fault example_env = None
   \<and> (\<exists>d. store (esm_apply example_env connected (form [(''whatsapp'', JStr ''9999999999'')])) =
            connected\<lparr>applications := Some [d]\<rparr>
        \<and> store (cjs_apply example_env connected (form [(''whatsapp'', JStr ''9999999999'')])) =
            connected\<lparr>applications := Some [d]\<rparr>
        \<and> get_prop d ''phone'' = JStr ''9999999999''
        \<and> get_prop d ''whatsapp'' = JStr ''9999999999''
        \<and> get_prop d ''number'' = JStr ''9999999999'')"
proof -
  let ?r = "form [(''whatsapp'', JStr ''9999999999'')]"
  have a: "applications connected = Some []" by (simp add: connected_def)
  have q: "QRCode_toDataURL example_env (esm_generateUniquePassId (Math_random example_env)) =
       Inr (''data:image/png;base64,'' @ esm_generateUniquePassId (Math_random example_env))"
    by (simp add: example_env_def)
  have f: "store_fault example_env = None" by (simp add: example_env_def)
  have b: "req_body ?r ''phone'' = JUndefined" "req_body ?r ''number'' = JUndefined"
    "req_body ?r ''whatsapp'' = JStr ''9999999999''"
    by (simp_all add: form_def)
  from apply_contact_fields [of connected "[]" example_env _ ?r] a q f
  obtain d where "store (esm_apply example_env connected ?r) = connected\<lparr>applications := Some ([] @ [d])\<rparr>"
    and "store (cjs_apply example_env connected ?r) = connected\<lparr>applications := Some ([] @ [d])\<rparr>"
    and "get_prop d ''phone'' = preferred_contact ?r"
    and "get_prop d ''whatsapp'' =
            (if truthy (req_body ?r ''whatsapp'') then req_body ?r ''whatsapp''
             else preferred_contact ?r)"
    and "get_prop d ''number'' =
            (if truthy (req_body ?r ''number'') then req_body ?r ''number''
             else preferred_contact ?r)"
    by blast
  then have "store (esm_apply example_env connected ?r) = connected\<lparr>applications := Some [d]\<rparr>
       \<and> store (cjs_apply example_env connected ?r) = connected\<lparr>applications := Some [d]\<rparr>
       \<and> get_prop d ''phone'' = JStr ''9999999999''
       \<and> get_prop d ''whatsapp'' = JStr ''9999999999''
       \<and> get_prop d ''number'' = JStr ''9999999999''"
    using b by (simp add: preferred_contact_def)
  then show ?thesis using a q f by blast
qed

text \<open>
  C4. With the store connected and answering, \<open>verify\<close> reports success, with the
  internal id of a matching record, exactly when some stored record has its \<open>phone\<close>,
  \<open>whatsapp\<close> or \<open>number\<close> field equal to the query, and reports \<open>success: false\<close>
  otherwise; it never writes. Hence a record created by \<open>apply\<close> with a phone, or with
  only a number, is found under that value.
\<close>

theorem verify_found_iff:
  assumes "applications st = Some apps" and "store_fault e = None"
  shows "((\<exists>d\<in>set apps. has_contact q d) \<longrightarrow>
            (\<exists>d\<in>set apps. has_contact q d \<and>
               reply (esm_verify e st q) =
                 \<lparr>status = 200, body = JObj [(''success'', JBool True), (''id'', get_prop d ''_id'')]\<rparr>))
       \<and> ((\<forall>d\<in>set apps. \<not> has_contact q d) \<longrightarrow>
            reply (esm_verify e st q) = \<lparr>status = 200, body = JObj [(''success'', JBool False)]\<rparr>)
       \<and> reply (cjs_verify e st q) = reply (esm_verify e st q)
       \<and> store (esm_verify e st q) = st \<and> store (cjs_verify e st q) = st
       \<and> (\<forall>e0 st0 req d.
             (st = store (esm_apply e0 st0 req) \<or> st = store (cjs_apply e0 st0 req))
             \<and> inserted (applications st0) (applications st) = Some d
             \<and> (req_body req ''phone'' = JStr q \<and> q \<noteq> []
                \<or> \<not> truthy (req_body req ''phone'') \<and> \<not> truthy (req_body req ''whatsapp'')
                   \<and> req_body req ''number'' = JStr q \<and> q \<noteq> []) \<longrightarrow>
             (\<exists>i. reply (esm_verify e st q) =
                \<lparr>status = 200, body = JObj [(''success'', JBool True), (''id'', i)]\<rparr>))"
proof -
  have "\<exists>i. reply (esm_verify e st q) =
           \<lparr>status = 200, body = JObj [(''success'', JBool True), (''id'', i)]\<rparr>"
    if s: "st = store (esm_apply e0 st0 req) \<or> st = store (cjs_apply e0 st0 req)"
      and i: "inserted (applications st0) (applications st) = Some d"
      and c: "req_body req ''phone'' = JStr q \<and> q \<noteq> []
               \<or> \<not> truthy (req_body req ''phone'') \<and> \<not> truthy (req_body req ''whatsapp'')
                  \<and> req_body req ''number'' = JStr q \<and> q \<noteq> []"
    for e0 st0 req d
  proof -
    from s i have "inserted (applications st0) (applications (store (esm_apply e0 st0 req))) = Some d
         \<or> inserted (applications st0) (applications (store (cjs_apply e0 st0 req))) = Some d"
      by blast
    from created_record_contact [OF this c] have "has_contact q d" .
    from verify_after_insert [OF i this assms(2)] show ?thesis .
  qed
  with verify_lookup [OF assms, of q] show ?thesis
    by blast
qed

theorem verify_found_iff_witness:
  "applications (connected\<lparr>applications := Some [issued_record]\<rparr>) = Some [issued_record]
   \<and> store_fault example_env = None
   \<and> has_contact ''111'' issued_record
   \<and> \<not> has_contact ''222'' issued_record
   \<and> reply (esm_verify example_env (connected\<lparr>applications := Some [issued_record]\<rparr>) ''111'') =
       \<lparr>status = 200, body = JObj [(''success'', JBool True),
                                   (''id'', JOid (ObjectId ''65a1b2c3d4e5f60718293a4b''))]\<rparr>
   \<and> reply (esm_verify example_env (connected\<lparr>applications := Some [issued_record]\<rparr>) ''222'') =
       \<lparr>status = 200, body = JObj [(''success'', JBool False)]\<rparr>"
proof -
  let ?st = "connected\<lparr>applications := Some [issued_record]\<rparr>"
  have a: "applications ?st = Some [issued_record]" by simp
  have f: "store_fault example_env = None" by (simp add: example_env_def)
  have y: "\<exists>d\<in>set [issued_record]. has_contact ''111'' d"
    by (simp add: issued_record_def has_contact_def)
  have n: "\<forall>d\<in>set [issued_record]. \<not> has_contact ''222'' d"
    by (simp add: issued_record_def has_contact_def)
  have i: "get_prop issued_record ''_id'' = JOid (ObjectId ''65a1b2c3d4e5f60718293a4b'')"
    by (simp add: issued_record_def)
  show ?thesis
    using verify_found_iff [OF a f, of "''111''"] verify_found_iff [OF a f, of "''222''"] a f y n i
    by (simp add: issued_record_def has_contact_def)
qed

text \<open>
  C5. A booking request in which \<open>applicantId\<close>, \<open>source\<close>, \<open>destination\<close> or
  \<open>paymentType\<close> is missing (undefined, or falsy in any other way) is answered with
  \<open>success: false\<close> and \<open>Missing fields\<close>, and the state, so the ticket store, is left
  as it was.
\<close>

theorem bookTicket_missing_fields_rejected:
  assumes "\<not> truthy (req_body req ''applicantId'') \<or> \<not> truthy (req_body req ''source'')
         \<or> \<not> truthy (req_body req ''destination'') \<or> \<not> truthy (req_body req ''paymentType'')"
  shows "esm_bookTicket e st req =
           \<lparr>reply = \<lparr>status = 200,
                     body = JObj [(''success'', JBool False), (''msg'', JStr ''Missing fields'')]\<rparr>,
            store = st, console = []\<rparr>
       \<and> cjs_bookTicket e st req =
           \<lparr>reply = \<lparr>status = 200,
                     body = JObj [(''success'', JBool False), (''msg'', JStr ''Missing fields'')]\<rparr>,
            store = st, console = []\<rparr>"
  using assms by (simp add: esm_bookTicket_cases cjs_bookTicket_cases json_def)

theorem bookTicket_missing_fields_witness:
  "req_body (form [(''applicantId'', JStr ''65a1b2c3d4e5f60718293a4b''), (''source'', JStr ''Hyderabad''),
                   (''paymentType'', JStr ''FREE'')]) ''destination'' = JUndefined
   \<and> store (esm_bookTicket example_env connected
        (form [(''applicantId'', JStr ''65a1b2c3d4e5f60718293a4b''), (''source'', JStr ''Hyderabad''),
               (''paymentType'', JStr ''FREE'')])) = connected
   \<and> body (reply (esm_bookTicket example_env connected
        (form [(''applicantId'', JStr ''65a1b2c3d4e5f60718293a4b''), (''source'', JStr ''Hyderabad''),
               (''paymentType'', JStr ''FREE'')]))) =
       JObj [(''success'', JBool False), (''msg'', JStr ''Missing fields'')]"
proof -
  let ?r = "form [(''applicantId'', JStr ''65a1b2c3d4e5f60718293a4b''), (''source'', JStr ''Hyderabad''),
                  (''paymentType'', JStr ''FREE'')]"
  have d: "req_body ?r ''destination'' = JUndefined"
    by (simp add: form_def)
  then have h: "\<not> truthy (req_body ?r ''applicantId'') \<or> \<not> truthy (req_body ?r ''source'')
         \<or> \<not> truthy (req_body ?r ''destination'') \<or> \<not> truthy (req_body ?r ''paymentType'')"
    by simp
  show ?thesis
    using bookTicket_missing_fields_rejected [OF h, of example_env connected] d by simp
qed

text \<open>
  C6. With the store connected and answering, a \<open>passId\<close> that no stored record
  carries is answered with status 404 and \<open>Not found\<close>, nothing is written or logged,
  and the status differs from the 500 of the handler's \<^verbatim>\<open>catch\<close> branch.
\<close>

theorem getApplicant_not_found:
  assumes "applications st = Some apps" and "store_fault e = None"
    and "\<forall>d\<in>set apps. get_prop d ''passId'' \<noteq> JStr passId"
  shows "esm_getApplicant e st passId =
           \<lparr>reply = \<lparr>status = 404,
                     body = JObj [(''success'', JBool False), (''msg'', JStr ''Not found'')]\<rparr>,
            store = st, console = []\<rparr>
       \<and> cjs_getApplicant e st passId = esm_getApplicant e st passId
       \<and> status (reply (esm_getApplicant_catch st err)) = 500
       \<and> status (reply (cjs_getApplicant_catch st err)) = 500"
proof -
  from assms(3) have "findOne (Eq ''passId'' (JStr passId)) apps = JNull"
    by (intro findOne_none) simp
  with assms(1,2) show ?thesis
    by (simp add: esm_getApplicant_def cjs_getApplicant_def esm_getApplicant_catch_def
          cjs_getApplicant_catch_def status_json_def js_or_def)
qed

theorem getApplicant_not_found_witness:
  "applications (connected\<lparr>applications := Some [issued_record]\<rparr>) = Some [issued_record]
   \<and> store_fault example_env = None
   \<and> get_prop issued_record ''passId'' \<noteq> JStr ''TSRTC-12345678''
   \<and> status (reply (esm_getApplicant example_env (connected\<lparr>applications := Some [issued_record]\<rparr>)
        ''TSRTC-12345678'')) = 404
   \<and> status (reply (esm_getApplicant example_env (connected\<lparr>applications := Some [issued_record]\<rparr>)
        ''TSRTC-55000000'')) = 200"
proof -
  let ?st = "connected\<lparr>applications := Some [issued_record]\<rparr>"
  have a: "applications ?st = Some [issued_record]" by simp
  have f: "store_fault example_env = None" by (simp add: example_env_def)
  have n: "\<forall>d\<in>set [issued_record]. get_prop d ''passId'' \<noteq> JStr ''TSRTC-12345678''"
    by (simp add: issued_record_def)
  have y: "status (reply (esm_getApplicant example_env ?st ''TSRTC-55000000'')) = 200"
    by (simp add: esm_getApplicant_def example_env_def issued_record_def findOne_def
          status_json_def js_or_def Let_def)
  show ?thesis
    using getApplicant_not_found [OF a f n] a f n y by simp
qed

text \<open>
  C7, as stated, fails: an id that the constructor rejects is answered with status 500
  and \<open>Server error\<close>, the very reply given when the store fails, not with a client
  error of its own.
\<close>

theorem applicant_malformed_id_counterexample:
  "new_ObjectId example_env (JStr ''not-an-id'') =
     Inl (Error ''input must be a 24 character hex string, 12 byte Uint8Array, or an integer'')
   \<and> reply (esm_applicant example_env connected ''not-an-id'') =
       \<lparr>status = 500, body = JObj [(''success'', JBool False), (''error'', JStr ''Server error'')]\<rparr>
   \<and> reply (esm_applicant (example_env\<lparr>store_fault := Some (Error ''connection closed'')\<rparr>)
        connected ''65a1b2c3d4e5f60718293a4b'') =
       reply (esm_applicant example_env connected ''not-an-id'')"
  by (simp add: esm_applicant_def esm_applicant_catch_def example_env_def connected_def
        ObjectId_of_hex_def radix_digit_def hex_val_def status_json_def)

text \<open>
  C7, amended. An id that cannot be parsed into the store's id format is answered with
  the generic server error (status 500, \<open>Server error\<close>), the reply of every failure
  caught by the handler; a well-formed id that matches no record is answered with
  \<open>success: false\<close> and status 200.
\<close>

theorem applicant_malformed_id_is_server_error:
  assumes "applications st = Some apps" and "new_ObjectId e (JStr ident) = Inl err"
  shows "reply (esm_applicant e st ident) =
           \<lparr>status = 500, body = JObj [(''success'', JBool False), (''error'', JStr ''Server error'')]\<rparr>
       \<and> reply (cjs_applicant e st ident) = reply (esm_applicant e st ident)
       \<and> reply (esm_applicant e st ident) = reply (esm_applicant_catch st err')
       \<and> (\<forall>ident' oid. new_ObjectId e (JStr ident') = Inr oid \<and> store_fault e = None
             \<and> (\<forall>d\<in>set apps. get_prop d ''_id'' \<noteq> JOid oid) \<longrightarrow>
             reply (esm_applicant e st ident') = \<lparr>status = 200, body = JObj [(''success'', JBool False)]\<rparr>
             \<and> reply (cjs_applicant e st ident') = reply (esm_applicant e st ident'))"
proof -
  have "findOne (Eq ''_id'' (JOid oid)) apps = JNull"
    if "\<forall>d\<in>set apps. get_prop d ''_id'' \<noteq> JOid oid" for oid
    using that by (intro findOne_none) simp
  with assms show ?thesis
    by (simp add: esm_applicant_def cjs_applicant_def esm_applicant_catch_def
          cjs_applicant_catch_def status_json_def json_def)
qed

theorem applicant_malformed_id_witness:
  "applications connected = Some []
   \<and> new_ObjectId example_env (JStr ''12345'') =
       Inl (Error ''input must be a 24 character hex string, 12 byte Uint8Array, or an integer'')
   \<and> status (reply (esm_applicant example_env connected ''12345'')) = 500
   \<and> reply (esm_applicant example_env connected ''65a1b2c3d4e5f60718293a4b'') =
       \<lparr>status = 200, body = JObj [(''success'', JBool False)]\<rparr>"
proof -
  have a: "applications connected = Some []" by (simp add: connected_def)
  have m: "new_ObjectId example_env (JStr ''12345'') =
       Inl (Error ''input must be a 24 character hex string, 12 byte Uint8Array, or an integer'')"
    by (simp add: example_env_def ObjectId_of_hex_def)
  have w: "new_ObjectId example_env (JStr ''65a1b2c3d4e5f60718293a4b'') =
       Inr (ObjectId ''65a1b2c3d4e5f60718293a4b'')"
    by (simp add: example_env_def ObjectId_of_hex_def radix_digit_def hex_val_def to_lower_def)
  have f: "store_fault example_env = None" by (simp add: example_env_def)
  show ?thesis
    using applicant_malformed_id_is_server_error [OF a m] a m w f by simp
qed

text \<open>
  C9, as stated, fails: a booking with the four required fields present, \<^verbatim>\<open>paymentType\<close>
  \<^verbatim>\<open>PAID\<close> and the amount \<^verbatim>\<open>{"toString": 1}\<close>, which does not parse as a number, does not
  succeed with NaN stored: \<^verbatim>\<open>Number(amount)\<close> throws, the handler answers 500 and no
  ticket is stored.
\<close>

theorem bookTicket_amount_counterexample:
  "truthy (req_body (booking ''PAID'' unconvertible) ''applicantId'')
   \<and> truthy (req_body (booking ''PAID'' unconvertible) ''source'')
   \<and> truthy (req_body (booking ''PAID'' unconvertible) ''destination'')
   \<and> req_body (booking ''PAID'' unconvertible) ''paymentType'' = JStr ''PAID''
   \<and> esm_bookTicket example_env connected (booking ''PAID'' unconvertible) =
       \<lparr>reply = \<lparr>status = 500,
                 body = JObj [(''success'', JBool False),
                              (''error'', JStr ''Cannot convert object to primitive value'')]\<rparr>,
        store = connected,
        console = [[cross_mark @ '' Ticket booking error:'',
                    ''Cannot convert object to primitive value'']]\<rparr>
   \<and> cjs_bookTicket example_env connected (booking ''PAID'' unconvertible) =
       esm_bookTicket example_env connected (booking ''PAID'' unconvertible)"
  by (simp add: esm_bookTicket_cases cjs_bookTicket_cases esm_bookTicket_catch_def
        cjs_bookTicket_catch_def booking_def form_def unconvertible_def example_env_def
        ObjectId_of_hex_def radix_digit_def hex_val_def to_lower_def status_json_def)

text \<open>
  C9, amended. A booking request with the four required fields present and
  \<^verbatim>\<open>paymentType\<close> \<^verbatim>\<open>PAID\<close> is not checked for its amount. With the applicant id accepted
  by the constructor and the store connected and answering: when \<^verbatim>\<open>Number(amount)\<close> can
  be evaluated (as for every string) the booking succeeds and stores \<^verbatim>\<open>Number(amount)\<close>,
  which is NaN for an amount that does not parse as a number; when the conversion of
  the amount throws, the request is answered with status 500 and nothing is stored.
\<close>

theorem bookTicket_amount_not_validated:
  assumes "truthy (req_body req ''applicantId'')" and "truthy (req_body req ''source'')"
    and "truthy (req_body req ''destination'')" and "req_body req ''paymentType'' = JStr ''PAID''"
    and "new_ObjectId e (req_body req ''applicantId'') = Inr oid"
    and "tickets st = Some tks" and "store_fault e = None"
  shows "(\<not> toString_throws (req_body req ''amount'') \<longrightarrow>
          (\<exists>doc. esm_bookTicket e st req =
              \<lparr>reply = \<lparr>status = 200, body = JObj [(''success'', JBool True), (''ticket'', doc)]\<rparr>,
               store = st\<lparr>tickets := Some (tks @ [doc])\<rparr>, console = []\<rparr>
            \<and> cjs_bookTicket e st req = esm_bookTicket e st req
            \<and> get_prop doc ''amount'' = JNum (ToNumber (req_body req ''amount''))
            \<and> (ToNumber (req_body req ''amount'') = NaN \<longrightarrow> get_prop doc ''amount'' = JNum NaN)))
       \<and> (toString_throws (req_body req ''amount'') \<longrightarrow>
          reply (esm_bookTicket e st req) =
              \<lparr>status = 500,
               body = JObj [(''success'', JBool False),
                            (''error'', JStr ''Cannot convert object to primitive value'')]\<rparr>
            \<and> store (esm_bookTicket e st req) = st
            \<and> reply (cjs_bookTicket e st req) = reply (esm_bookTicket e st req)
            \<and> store (cjs_bookTicket e st req) = st)
       \<and> (\<forall>s. req_body req ''amount'' = JStr s \<longrightarrow> \<not> toString_throws (req_body req ''amount''))"
  using assms
  by (simp add: esm_bookTicket_cases cjs_bookTicket_cases esm_bookTicket_catch_def
        cjs_bookTicket_catch_def json_def status_json_def Let_def)

theorem bookTicket_amount_not_validated_witness:
  "ToNumber (JStr ''abc'') = NaN
   \<and> \<not> toString_throws (req_body (booking ''PAID'' (JStr ''abc'')) ''amount'')
   \<and> (\<exists>doc. esm_bookTicket example_env connected (booking ''PAID'' (JStr ''abc'')) =
            \<lparr>reply = \<lparr>status = 200, body = JObj [(''success'', JBool True), (''ticket'', doc)]\<rparr>,
             store = connected\<lparr>tickets := Some ([] @ [doc])\<rparr>, console = []\<rparr>
          \<and> cjs_bookTicket example_env connected (booking ''PAID'' (JStr ''abc'')) =
             esm_bookTicket example_env connected (booking ''PAID'' (JStr ''abc''))
          \<and> get_prop doc ''amount'' = JNum NaN)
   \<and> toString_throws (req_body (booking ''PAID'' unconvertible) ''amount'')
   \<and> status (reply (cjs_bookTicket example_env connected (booking ''PAID'' unconvertible))) = 500
   \<and> store (cjs_bookTicket example_env connected (booking ''PAID'' unconvertible)) = connected"
proof -
  let ?r = "booking ''PAID'' (JStr ''abc'')"
  let ?u = "booking ''PAID'' unconvertible"
  have "StringToNumber ''abc'' = NaN"
    by (simp add: StringToNumber_def ws1_def ws2_def ws3_def radix_of_def unsigned_decimal_def
          is_digit_def Let_def)
  then have n: "ToNumber (JStr ''abc'') = NaN"
    by simp
  have o: "new_ObjectId example_env (req_body ?r ''applicantId'') = Inr (ObjectId ''65a1b2c3d4e5f60718293a4b'')"
    "new_ObjectId example_env (req_body ?u ''applicantId'') = Inr (ObjectId ''65a1b2c3d4e5f60718293a4b'')"
    by (simp_all add: booking_def form_def example_env_def ObjectId_of_hex_def radix_digit_def
          hex_val_def to_lower_def)
  have t: "tickets connected = Some []" "store_fault example_env = None"
    by (simp_all add: connected_def example_env_def)
  have f: "truthy (req_body ?r ''applicantId'')" "truthy (req_body ?r ''source'')"
    "truthy (req_body ?r ''destination'')" "req_body ?r ''paymentType'' = JStr ''PAID''"
    "truthy (req_body ?u ''applicantId'')" "truthy (req_body ?u ''source'')"
    "truthy (req_body ?u ''destination'')" "req_body ?u ''paymentType'' = JStr ''PAID''"
    by (simp_all add: booking_def form_def)
  have a: "req_body ?r ''amount'' = JStr ''abc''" "toString_throws (req_body ?u ''amount'')"
    by (simp_all add: booking_def form_def unconvertible_def)
  show ?thesis
    using bookTicket_amount_not_validated [OF f(1-4) o(1) t]
      bookTicket_amount_not_validated [OF f(5-8) o(2) t] n a
    by simp
qed

text \<open>
  C10. The two versions of the server give the same reply and leave the same store for
  every request to each of the five routes, and their identifier generators agree. (The
  lines they write to the console differ.)
\<close>

theorem versions_equivalent:
  "esm_generateUniquePassId r = cjs_generateUniquePassId r
   \<and> reply (esm_apply e st req) = reply (cjs_apply e st req)
   \<and> store (esm_apply e st req) = store (cjs_apply e st req)
   \<and> reply (esm_verify e st phone) = reply (cjs_verify e st phone)
   \<and> store (esm_verify e st phone) = store (cjs_verify e st phone)
   \<and> reply (esm_applicant e st ident) = reply (cjs_applicant e st ident)
   \<and> store (esm_applicant e st ident) = store (cjs_applicant e st ident)
   \<and> reply (esm_getApplicant e st passId) = reply (cjs_getApplicant e st passId)
   \<and> store (esm_getApplicant e st passId) = store (cjs_getApplicant e st passId)
   \<and> reply (esm_bookTicket e st req') = reply (cjs_bookTicket e st req')
   \<and> store (esm_bookTicket e st req') = store (cjs_bookTicket e st req')"
proof -
  have g: "esm_generateUniquePassId x = cjs_generateUniquePassId x" for x
    by (simp add: esm_generateUniquePassId_def cjs_generateUniquePassId_def)
  have d: "esm_application_doc e req p q = cjs_application_doc e req p q" for p q
    by (simp add: esm_application_doc_def cjs_application_doc_def)
  have "reply (esm_apply e st req) = reply (cjs_apply e st req)"
    and "store (esm_apply e st req) = store (cjs_apply e st req)"
    by (simp_all add: esm_apply_cases cjs_apply_cases esm_apply_catch_def cjs_apply_catch_def g d
          split: option.splits sum.splits)
  moreover have "reply (esm_verify e st phone) = reply (cjs_verify e st phone)"
    and "store (esm_verify e st phone) = store (cjs_verify e st phone)"
    by (simp_all add: esm_verify_def cjs_verify_def Let_def split: option.splits del: matches.simps)
  moreover have "reply (esm_applicant e st ident) = reply (cjs_applicant e st ident)"
    and "store (esm_applicant e st ident) = store (cjs_applicant e st ident)"
    by (simp_all add: esm_applicant_def cjs_applicant_def esm_applicant_catch_def
          cjs_applicant_catch_def Let_def split: option.splits sum.splits del: matches.simps)
  moreover have "reply (esm_getApplicant e st passId) = reply (cjs_getApplicant e st passId)"
    and "store (esm_getApplicant e st passId) = store (cjs_getApplicant e st passId)"
    by (simp_all add: esm_getApplicant_def cjs_getApplicant_def esm_getApplicant_catch_def
          cjs_getApplicant_catch_def Let_def js_or_def status_json_def json_def
          split: option.splits del: matches.simps)
  moreover have "reply (esm_bookTicket e st req') = reply (cjs_bookTicket e st req')"
    and "store (esm_bookTicket e st req') = store (cjs_bookTicket e st req')"
    by (simp_all add: esm_bookTicket_cases cjs_bookTicket_cases esm_bookTicket_catch_def
          cjs_bookTicket_catch_def Let_def split: option.splits sum.splits)
  ultimately show ?thesis using g by simp
qed

theorem versions_equivalent_witness:
  "reply (esm_getApplicant example_env \<lparr>applications = None, tickets = None\<rparr> ''TSRTC-55000000'') =
     reply (cjs_getApplicant example_env \<lparr>applications = None, tickets = None\<rparr> ''TSRTC-55000000'')
   \<and> status (reply (cjs_getApplicant example_env \<lparr>applications = None, tickets = None\<rparr>
        ''TSRTC-55000000'')) = 500
   \<and> console (esm_getApplicant example_env \<lparr>applications = None, tickets = None\<rparr> ''TSRTC-55000000'') \<noteq>
     console (cjs_getApplicant example_env \<lparr>applications = None, tickets = None\<rparr> ''TSRTC-55000000'')"
  using versions_equivalent [of _ example_env "\<lparr>applications = None, tickets = None\<rparr>" _ _ _
      "''TSRTC-55000000''"]
  by (simp add: esm_getApplicant_def cjs_getApplicant_def esm_getApplicant_catch_def
        cjs_getApplicant_catch_def status_json_def)

end
